theory Spec2Isabelle
  imports Complex_Main "HOL-Library.Sublist"
begin

section \<open>Text, as the scanners see it\<close>

text \<open>
  The scripts read files as Python \<open>str\<close> and search them. Text is modelled as
  \<open>string\<close>, a character standing for the code point of the same number (the
  code points below 256). On these code points \<open>str.lower()\<close> maps the ASCII capitals
  and the Latin-1 capitals (0xC0 to 0xDE, but the multiplication sign 0xD7) to the
  letter 32 places up, and leaves every other character alone.
\<close>

definition lower_char :: "char \<Rightarrow> char" where
  "lower_char c =
     (let n = of_char c :: nat
      in if (65 \<le> n \<and> n \<le> 90) \<or> (192 \<le> n \<and> n \<le> 222 \<and> n \<noteq> 215)
         then char_of (n + 32) else c)"

definition lower :: "string \<Rightarrow> string" where
  "lower s = map lower_char s"

text \<open>Python's \<open>x in s\<close> on strings: \<open>x\<close> occurs in \<open>s\<close> as a contiguous piece.\<close>

definition str_in :: "string \<Rightarrow> string \<Rightarrow> bool" where
  "str_in x s = sublist x s"

text \<open>Decimal rendering of an integer, as an f-string prints it.\<close>

fun str_nat :: "nat \<Rightarrow> string" where
  "str_nat n =
     (if n < 10 then [char_of (48 + n)]
      else str_nat (n div 10) @ [char_of (48 + n mod 10)])"

definition str_int :: "int \<Rightarrow> string" where
  "str_int i = (if i < 0 then ''-'' @ str_nat (nat (- i)) else str_nat (nat i))"

section \<open>The regular expressions of the scripts\<close>

text \<open>
  Every pattern handed to \<open>re.search\<close> in these scripts is an alternation of
  sequences of single-character atoms (a literal, a bracketed class, the dot), each
  atom bare or under \<open>?\<close> or \<open>*\<close>; there are no groups. The patterns are written in
  that form: a regex is the list of its alternatives, an alternative the list of its
  items.
\<close>

datatype atom = Chr char | Cls "char list" | Dot

datatype item = One atom | Opt atom | Star atom

type_synonym regex = "item list list"

text \<open>The class \<open>\s\<close> of a \<open>str\<close> pattern, on the code points below 256.\<close>

definition whitespace :: "char list" where
  "whitespace = map char_of [9, 10, 11, 12, 13, 28, 29, 30, 31, 32, 133, 160 :: nat]"

text \<open>
  One character against one atom. Under \<open>re.IGNORECASE\<close> (\<open>ic\<close>) two characters
  agree when their lower-case forms do. The dot matches anything but a newline.
\<close>

fun atom_ok :: "bool \<Rightarrow> atom \<Rightarrow> char \<Rightarrow> bool" where
  "atom_ok ic (Chr x) c = (if ic then lower_char c = lower_char x else c = x)"
| "atom_ok ic (Cls xs) c = (if ic then lower_char c \<in> set (map lower_char xs) else c \<in> set xs)"
| "atom_ok ic Dot c = (c \<noteq> CHR 0x0A)"

text \<open>Does an alternative match a prefix of the text?\<close>

fun match_here :: "bool \<Rightarrow> item list \<Rightarrow> string \<Rightarrow> bool" where
  "match_here ic [] s = True"
| "match_here ic (One a # r) [] = False"
| "match_here ic (One a # r) (c # t) = (atom_ok ic a c \<and> match_here ic r t)"
| "match_here ic (Opt a # r) [] = match_here ic r []"
| "match_here ic (Opt a # r) (c # t) =
     ((atom_ok ic a c \<and> match_here ic r t) \<or> match_here ic r (c # t))"
| "match_here ic (Star a # r) [] = match_here ic r []"
| "match_here ic (Star a # r) (c # t) =
     ((atom_ok ic a c \<and> match_here ic (Star a # r) t) \<or> match_here ic r (c # t))"

text \<open>Does it match somewhere in the text?\<close>

fun match_anywhere :: "bool \<Rightarrow> item list \<Rightarrow> string \<Rightarrow> bool" where
  "match_anywhere ic b [] = match_here ic b []"
| "match_anywhere ic b (c # t) = (match_here ic b (c # t) \<or> match_anywhere ic b t)"

text \<open>\<open>re.search(pattern, s)\<close> as a truth value; \<open>ic\<close> is the flag \<open>re.IGNORECASE\<close>.\<close>

definition re_search :: "bool \<Rightarrow> regex \<Rightarrow> string \<Rightarrow> bool" where
  "re_search ic rx s = list_ex (\<lambda>b. match_anywhere ic b s) rx"

text \<open>Pieces the pattern tables are written with.\<close>

definition lit :: "string \<Rightarrow> item list" where
  "lit w = map (\<lambda>c. One (Chr c)) w"

definition us :: "item list" where
  \<comment> \<open>\<open>[_\s]?\<close>\<close>
  "us = [Opt (Cls (CHR ''_'' # whitespace))]"

definition any_run :: "item list" where
  \<comment> \<open>\<open>.*\<close>\<close>
  "any_run = [Star Dot]"

section \<open>The scanned tree\<close>

text \<open>
  What a run can observe of the directory it is given. A path is the list of its
  components below the root. An entry is a directory or a file; opening and reading a
  file as UTF-8 text gives its text, or fails to decode, or is refused by the system.
  The entries stand in the order in which the system enumerates them. A root that does
  not exist has no entries.
\<close>

datatype py_error = UnicodeDecodeError | PermissionError | IsADirectoryError

datatype node = Dir | Text string | Undecodable | Unreadable

type_synonym path = "string list"

datatype fs = NoRoot | Root "(path \<times> node) list"

fun entries :: "fs \<Rightarrow> (path \<times> node) list" where
  "entries NoRoot = []"
| "entries (Root es) = es"

fun root_exists :: "fs \<Rightarrow> bool" where
  "root_exists NoRoot = False"
| "root_exists (Root es) = True"

text \<open>\<open>(directory / p).exists()\<close>\<close>

definition exists_path :: "fs \<Rightarrow> path \<Rightarrow> bool" where
  "exists_path t p = (p \<in> set (map fst (entries t)))"

text \<open>
  \<open>directory.rglob('*' + suf)\<close>: every entry below the root, at any depth, whose name
  ends in \<open>suf\<close>; directories are not left out.
\<close>

definition rglob :: "fs \<Rightarrow> string \<Rightarrow> (path \<times> node) list" where
  "rglob t suf = filter (\<lambda>(p, n). p \<noteq> [] \<and> suffix suf (last p)) (entries t)"

text \<open>\<open>(directory / d).glob('*' + suf)\<close>: the entries directly inside \<open>d\<close> with such a name.\<close>

definition glob :: "fs \<Rightarrow> path \<Rightarrow> string \<Rightarrow> (path \<times> node) list" where
  "glob t d suf =
     filter (\<lambda>(p, n). p \<noteq> [] \<and> butlast p = d \<and> suffix suf (last p)) (entries t)"

text \<open>\<open>open(p, 'r', encoding='utf-8')\<close> followed by \<open>read()\<close>.\<close>

fun open_read :: "node \<Rightarrow> py_error + string" where
  "open_read Dir = Inl IsADirectoryError"
| "open_read (Text s) = Inr s"
| "open_read Undecodable = Inl UnicodeDecodeError"
| "open_read Unreadable = Inl PermissionError"

text \<open>Sequencing of steps that may raise: the first exception ends the run.\<close>

definition bind_e :: "py_error + 'a \<Rightarrow> ('a \<Rightarrow> py_error + 'b) \<Rightarrow> py_error + 'b" where
  "bind_e m f = (case m of Inl e \<Rightarrow> Inl e | Inr x \<Rightarrow> f x)"

text \<open>
  The two file loops of the scripts. \<open>each_file\<close> is the bare loop
  \<^verbatim>\<open>for p in files: with open(p) as f: body(f.read())\<close>,
  where a failed read raises out of the loop. \<open>try_each_file\<close> is the loop whose body
  stands in \<^verbatim>\<open>try: ... except (UnicodeDecodeError, PermissionError): continue\<close>:
  these two exceptions skip the file, any other leaves the loop.
\<close>

fun each_file :: "(string \<Rightarrow> 's \<Rightarrow> 's) \<Rightarrow> (path \<times> node) list \<Rightarrow> 's \<Rightarrow> py_error + 's" where
  "each_file body [] st = Inr st"
| "each_file body ((p, n) # fs) st =
     (case open_read n of
        Inl e \<Rightarrow> Inl e
      | Inr text \<Rightarrow> each_file body fs (body text st))"

fun try_each_file :: "(string \<Rightarrow> 's \<Rightarrow> 's) \<Rightarrow> (path \<times> node) list \<Rightarrow> 's \<Rightarrow> py_error + 's" where
  "try_each_file body [] st = Inr st"
| "try_each_file body ((p, n) # fs) st =
     (case open_read n of
        Inl e \<Rightarrow>
          (if e = UnicodeDecodeError \<or> e = PermissionError then try_each_file body fs st
           else Inl e)
      | Inr text \<Rightarrow> try_each_file body fs (body text st))"

text \<open>\<open>any(re.search(pattern, content) for pattern in patterns)\<close>\<close>

definition any_search :: "bool \<Rightarrow> regex list \<Rightarrow> string \<Rightarrow> bool" where
  "any_search ic patterns content = list_ex (\<lambda>rx. re_search ic rx content) patterns"


text \<open>
  A loop that returns at the first file whose text satisfies \<open>hit\<close>, the read under
  the same \<^verbatim>\<open>try\<close>; it returns \<open>False\<close> when the files are used up.
\<close>

fun first_file :: "(string \<Rightarrow> bool) \<Rightarrow> (path \<times> node) list \<Rightarrow> py_error + bool" where
  "first_file hit [] = Inr False"
| "first_file hit ((p, n) # fs) =
     (case open_read n of
        Inl e \<Rightarrow>
          (if e = UnicodeDecodeError \<or> e = PermissionError then first_file hit fs
           else Inl e)
      | Inr text \<Rightarrow> if hit text then Inr True else first_file hit fs)"

text \<open>Letters of the patterns that are not ASCII.\<close>

definition a_acute :: char where "a_acute = CHR 0xE1"
definition a_tilde :: char where "a_tilde = CHR 0xE3"
definition c_cedilla :: char where "c_cedilla = CHR 0xE7"
definition e_circumflex :: char where "e_circumflex = CHR 0xEA"
definition i_acute :: char where "i_acute = CHR 0xED"

definition cls :: "char list \<Rightarrow> item list" where
  "cls xs = [One (Cls xs)]"

section \<open>aegis-architect: brazilian\_compliance\_validator.py\<close>

subsection \<open>The result\<close>

text \<open>
  \<open>self.results\<close>. The four entries of \<open>results['brazilian_compliance']\<close> are the
  fields \<open>lgpd\<close>, \<open>pix\<close>, \<open>openbanking\<close> and \<open>security\<close>, in the order of the
  dictionary.
\<close>

record category =
  score :: int
  issues :: "string list"

record results =
  valid :: bool
  compliance_score :: int
  errors :: "string list"
  warnings :: "string list"
  recommendations :: "string list"
  checks_performed :: "string list"
  lgpd :: category
  pix :: category
  openbanking :: category
  security :: category

definition init_category :: category where
  "init_category = \<lparr>score = 0, issues = []\<rparr>"

definition init_results :: results where
  "init_results =
     \<lparr>valid = True, compliance_score = 0, errors = [], warnings = [],
      recommendations = [], checks_performed = [],
      lgpd = init_category, pix = init_category,
      openbanking = init_category, security = init_category\<rparr>"

definition add_check :: "string \<Rightarrow> results \<Rightarrow> results" where
  "add_check name r = r\<lparr>checks_performed := checks_performed r @ [name]\<rparr>"

definition add_recommendation :: "string \<Rightarrow> results \<Rightarrow> results" where
  "add_recommendation msg r = r\<lparr>recommendations := recommendations r @ [msg]\<rparr>"

definition add_warning :: "string \<Rightarrow> results \<Rightarrow> results" where
  "add_warning msg r = r\<lparr>warnings := warnings r @ [msg]\<rparr>"

definition add_issue :: "string \<Rightarrow> category \<Rightarrow> category" where
  "add_issue msg c = c\<lparr>issues := issues c @ [msg]\<rparr>"

definition lgpd_issue :: "string \<Rightarrow> results \<Rightarrow> results" where
  "lgpd_issue msg r = r\<lparr>lgpd := add_issue msg (lgpd r)\<rparr>"

definition pix_issue :: "string \<Rightarrow> results \<Rightarrow> results" where
  "pix_issue msg r = r\<lparr>pix := add_issue msg (pix r)\<rparr>"

definition openbanking_issue :: "string \<Rightarrow> results \<Rightarrow> results" where
  "openbanking_issue msg r = r\<lparr>openbanking := add_issue msg (openbanking r)\<rparr>"

definition security_issue :: "string \<Rightarrow> results \<Rightarrow> results" where
  "security_issue msg r = r\<lparr>security := add_issue msg (security r)\<rparr>"

text \<open>
  The step the four validations repeat,
  \<^verbatim>\<open>if found: score += weight  else: <append a message>\<close>,
  on the pair of the local score and \<open>self.results\<close>.
\<close>

definition credit :: "bool \<Rightarrow> int \<Rightarrow> (results \<Rightarrow> results) \<Rightarrow> int \<times> results \<Rightarrow> int \<times> results" where
  "credit found weight otherwise st =
     (case st of (sc, r) \<Rightarrow> if found then (sc + weight, r) else (sc, otherwise r))"

text \<open>The closing lines: store the score, warn below 70.\<close>

definition score_warning :: "string \<Rightarrow> int \<Rightarrow> string" where
  "score_warning label sc = label @ '' compliance score: '' @ str_int sc @ ''% (target: 70%+)''"

definition warn_below_70 :: "string \<Rightarrow> int \<Rightarrow> results \<Rightarrow> results" where
  "warn_below_70 label sc r = (if sc < 70 then add_warning (score_warning label sc) r else r)"

text \<open>The code files of a check: \<open>list(rglob('*.ts')) + list(rglob('*.tsx'))\<close>.\<close>

definition code_files :: "fs \<Rightarrow> (path \<times> node) list" where
  "code_files t = rglob t ''.ts'' @ rglob t ''.tsx''"

definition migrations_dir :: path where
  "migrations_dir = [''supabase'', ''migrations'']"

text \<open>
  The migration files a check opens: those of \<open>supabase/migrations/*.sql\<close>, when both
  directories exist.
\<close>

definition migration_files :: "fs \<Rightarrow> (path \<times> node) list" where
  "migration_files t =
     (if exists_path t [''supabase''] then
        (if exists_path t migrations_dir then glob t migrations_dir ''.sql'' else [])
      else [])"

subsection \<open>\_check\_rls\_implementation and \_search\_in\_code\<close>

definition rls_patterns :: "regex list" where
  "rls_patterns =
     [[lit ''ENABLE ROW LEVEL SECURITY''],
      [lit ''CREATE POLICY''],
      [lit ''auth.uid()'']]"

definition check_rls_implementation :: "fs \<Rightarrow> py_error + bool" where
  "check_rls_implementation t =
     (if \<not> exists_path t [''supabase''] then Inr False
      else if \<not> exists_path t migrations_dir then Inr False
      else first_file (any_search True rls_patterns) (glob t migrations_dir ''.sql''))"

definition search_in_code :: "fs \<Rightarrow> regex \<Rightarrow> py_error + bool" where
  "search_in_code t pattern = first_file (re_search True pattern) (code_files t)"

subsection \<open>validate\_lgpd\_compliance\<close>

definition lgpd_consent_management :: "regex list" where
  "lgpd_consent_management =
     [[lit ''consentimento'', lit ''consent''],
      [lit ''lgpd'', lit ''lei'' @ us @ lit ''geral''],
      [lit ''data'' @ us @ lit ''protection''],
      [lit ''pol'' @ cls [CHR ''i'', i_acute] @ lit ''tica'' @ us @ lit ''de'' @ us
         @ lit ''privacidade'']]"

definition lgpd_data_minimization :: "regex list" where
  "lgpd_data_minimization =
     [[lit ''m'' @ cls [CHR ''i'', i_acute] @ lit ''nimo'' @ us @ lit ''necess''
         @ cls [a_acute, CHR ''a''] @ lit ''rio''],
      [lit ''data'' @ us @ lit ''minimization''],
      [lit ''coletar'' @ us @ lit ''apenas'' @ us @ lit ''necess''
         @ cls [a_acute, CHR ''a''] @ lit ''rio'']]"

definition lgpd_user_rights :: "regex list" where
  "lgpd_user_rights =
     [[lit ''direito'' @ us @ lit ''de'' @ us @ lit ''acesso''],
      [lit ''direito'' @ us @ lit ''de'' @ us @ lit ''retifica''
         @ cls [CHR ''c'', c_cedilla] @ cls [a_tilde, CHR ''a''] @ lit ''o''],
      [lit ''direito'' @ us @ lit ''ao'' @ us @ lit ''esquecimento''],
      [lit ''data'' @ us @ lit ''portability'']]"

text \<open>The body of the loop over the migrations: the three additions, for each file.\<close>

definition lgpd_migration_body :: "string \<Rightarrow> int \<Rightarrow> int" where
  "lgpd_migration_body text lgpd_score =
     (let content = lower text;
          s1 = (if str_in ''consentimento'' content \<or> str_in ''data_processing_consent'' content
                then lgpd_score + 10 else lgpd_score);
          s2 = (if str_in ''retention'' content \<or> str_in ''expira'' content
                then s1 + 10 else s1)
      in if str_in ''created_at'' content \<and> str_in ''updated_at'' content
         then s2 + 5 else s2)"

text \<open>
  The body of the loop over the code files: the flags \<open>consent_management\<close>,
  \<open>data_minimization\<close> and \<open>user_rights\<close>.
\<close>

definition lgpd_code_body :: "string \<Rightarrow> bool \<times> bool \<times> bool \<Rightarrow> bool \<times> bool \<times> bool" where
  "lgpd_code_body text fl =
     (case fl of (consent_management, data_minimization, user_rights) \<Rightarrow>
        let content = lower text
        in (consent_management \<or> any_search False lgpd_consent_management content,
            data_minimization \<or> any_search False lgpd_data_minimization content,
            user_rights \<or> any_search False lgpd_user_rights content))"

definition privacy_policy_files :: "path list" where
  "privacy_policy_files =
     [[''privacy_policy.md''], [''politica_privacidade.md''],
      [''lgpd_compliance.md''], [''compliance'', ''lgpd.md'']]"

definition validate_lgpd_compliance :: "fs \<Rightarrow> results \<Rightarrow> py_error + results" where
  "validate_lgpd_compliance t r0 =
     bind_e (each_file lgpd_migration_body (migration_files t) 0) (\<lambda>lgpd_score.
     bind_e (try_each_file lgpd_code_body (code_files t) (False, False, False)) (\<lambda>fl.
     case fl of (consent_management, data_minimization, user_rights) \<Rightarrow>
     let st1 = credit consent_management 20
                 (lgpd_issue ''Missing consent management implementation'')
                 (lgpd_score, add_check ''lgpd'' r0);
         st2 = credit data_minimization 15
                 (lgpd_issue ''Missing data minimization implementation'') st1;
         st3 = credit user_rights 15
                 (lgpd_issue ''Missing user rights implementation'') st2;
         privacy_found = list_ex (exists_path t) privacy_policy_files;
         st4 = credit privacy_found 15
                 (add_recommendation ''Create LGPD privacy policy documentation'') st3
     in
     bind_e (check_rls_implementation t) (\<lambda>rls_found.
     case credit rls_found 10 (lgpd_issue ''Missing RLS for data protection'') st4 of
       (sc, r) \<Rightarrow>
         Inr (warn_below_70 ''LGPD'' sc (r\<lparr>lgpd := (lgpd r)\<lparr>score := sc\<rparr>\<rparr>)))))"

subsection \<open>validate\_pix\_compliance\<close>

definition pix_transaction_fields :: "regex list" where
  "pix_transaction_fields =
     [[lit ''end'' @ us @ lit ''to'' @ us @ lit ''end'' @ us @ lit ''id''],
      [lit ''transaction'' @ us @ lit ''id''],
      [lit ''pix'' @ us @ lit ''key''],
      [lit ''descricao'']]"

definition pix_security_measures :: "regex list" where
  "pix_security_measures =
     [[lit ''double'' @ us @ lit ''auth'',
       lit ''autentica'' @ cls [CHR ''c'', c_cedilla] @ cls [a_tilde, CHR ''a'']
         @ lit ''o'' @ us @ lit ''dupla''],
      [lit ''biometric'', lit ''biometria''],
      [lit ''rate'' @ us @ lit ''limit''],
      [lit ''fraud'' @ us @ lit ''detection'']]"

definition pix_key_types :: "regex list" where
  "pix_key_types =
     [[lit ''cpf'', lit ''cnpj''],
      [lit ''email''],
      [lit ''phone'', lit ''telefone''],
      [lit ''random'' @ us @ lit ''key'']]"

definition pix_api_patterns :: "regex list" where
  "pix_api_patterns =
     [[lit ''/api/v1/pix/''], [lit ''pix/transfer''], [lit ''pix/keys''], [lit ''pix/qrcode'']]"

definition pix_migration_body :: "string \<Rightarrow> int \<Rightarrow> int" where
  "pix_migration_body text pix_score =
     (let content = lower text
      in if str_in ''pix_transactions'' content \<or> str_in ''transactions'' content then
           (let s1 = (if str_in ''end_to_end_id'' content then pix_score + 15 else pix_score);
                s2 = (if str_in ''transaction_id'' content then s1 + 10 else s1);
                s3 = (if str_in ''pix_key'' content then s2 + 10 else s2);
                s4 = (if str_in ''amount'' content then s3 + 5 else s3)
            in if list_ex (\<lambda>status. str_in status content) [''status'', ''transaction_status'']
               then s4 + 10 else s4)
         else pix_score)"

definition pix_code_body :: "string \<Rightarrow> bool \<times> bool \<times> bool \<Rightarrow> bool \<times> bool \<times> bool" where
  "pix_code_body text fl =
     (case fl of (pix_implementation, pix_security, pix_key_types_found) \<Rightarrow>
        let content = lower text
        in (pix_implementation \<or> any_search False pix_transaction_fields content,
            pix_security \<or> any_search False pix_security_measures content,
            pix_key_types_found \<or> any_search False pix_key_types content))"

text \<open>
  \<^verbatim>\<open>for pattern in api_patterns: if self._search_in_code(pattern): found = True; break\<close>
\<close>

fun search_any_in_code :: "fs \<Rightarrow> regex list \<Rightarrow> py_error + bool" where
  "search_any_in_code t [] = Inr False"
| "search_any_in_code t (pattern # rest) =
     bind_e (search_in_code t pattern) (\<lambda>found.
       if found then Inr True else search_any_in_code t rest)"

definition validate_pix_compliance :: "fs \<Rightarrow> results \<Rightarrow> py_error + results" where
  "validate_pix_compliance t r0 =
     bind_e (each_file pix_migration_body (migration_files t) 0) (\<lambda>pix_score.
     bind_e (try_each_file pix_code_body (code_files t) (False, False, False)) (\<lambda>fl.
     case fl of (pix_implementation, pix_security, pix_key_types_found) \<Rightarrow>
     let st1 = credit pix_implementation 20
                 (pix_issue ''Missing PIX transaction implementation'')
                 (pix_score, add_check ''pix'' r0);
         st2 = credit pix_security 15
                 (pix_issue ''Missing PIX security measures'') st1;
         st3 = credit pix_key_types_found 10
                 (add_recommendation
                    ''Implement PIX key type validation (CPF, CNPJ, email, phone)'') st2
     in
     bind_e (search_any_in_code t pix_api_patterns) (\<lambda>pix_endpoints.
     case credit pix_endpoints 5
            (add_recommendation ''Create PIX API endpoints following BCB patterns'') st3 of
       (sc, r) \<Rightarrow>
         Inr (warn_below_70 ''PIX'' sc (r\<lparr>pix := (pix r)\<lparr>score := sc\<rparr>\<rparr>)))))"

subsection \<open>validate\_openbanking\_compliance\<close>

definition ob_consent :: "regex list" where
  "ob_consent =
     [[lit ''consent'' @ [Opt (Chr CHR ''s'')]], [lit ''scope''], [lit ''expiration'']]"

definition ob_customer :: "regex list" where
  "ob_customer =
     [[lit ''customer'' @ us @ lit ''data''],
      [lit ''personal'' @ us @ lit ''data''],
      [lit ''identifica'' @ cls [CHR ''c'', c_cedilla] @ cls [a_tilde, CHR ''a''] @ lit ''o'']]"

definition ob_accounts :: "regex list" where
  "ob_accounts =
     [[lit ''account'' @ [Opt (Chr CHR ''s'')]], [lit ''balance''], [lit ''transactions'']]"

definition ob_security :: "regex list" where
  "ob_security =
     [[lit ''oauth'', lit ''oauth2''], [lit ''token''], [lit ''scope''],
      [lit ''redirect'' @ us @ lit ''uri'']]"

definition ob_code_body ::
  "string \<Rightarrow> bool \<times> bool \<times> bool \<times> bool \<Rightarrow> bool \<times> bool \<times> bool \<times> bool" where
  "ob_code_body text fl =
     (case fl of (consent_api, customer_api, accounts_api, security_implementation) \<Rightarrow>
        let content = lower text
        in (consent_api \<or> any_search False ob_consent content,
            customer_api \<or> any_search False ob_customer content,
            accounts_api \<or> any_search False ob_accounts content,
            security_implementation \<or> any_search False ob_security content))"

definition ob_docs :: "path list" where
  "ob_docs =
     [[''openbanking.md''], [''open_banking.md''],
      [''docs'', ''openbanking''], [''openbanking_spec.md'']]"

definition validate_openbanking_compliance :: "fs \<Rightarrow> results \<Rightarrow> py_error + results" where
  "validate_openbanking_compliance t r0 =
     bind_e (try_each_file ob_code_body (code_files t) (False, False, False, False)) (\<lambda>fl.
     case fl of (consent_api, customer_api, accounts_api, security_implementation) \<Rightarrow>
     let st1 = credit consent_api 25
                 (openbanking_issue ''Missing Open Banking consent API'')
                 (0, add_check ''openbanking'' r0);
         st2 = credit customer_api 20
                 (add_recommendation ''Implement Open Banking customer data endpoints'') st1;
         st3 = credit accounts_api 20
                 (add_recommendation ''Implement Open Banking accounts endpoints'') st2;
         st4 = credit security_implementation 25
                 (openbanking_issue ''Missing Open Banking security implementation'') st3;
         ob_doc_found = list_ex (exists_path t) ob_docs
     in
     case credit ob_doc_found 10
            (add_recommendation ''Create Open Banking implementation documentation'') st4 of
       (sc, r) \<Rightarrow>
         Inr (warn_below_70 ''Open Banking'' sc
                (r\<lparr>openbanking := (openbanking r)\<lparr>score := sc\<rparr>\<rparr>)))"

subsection \<open>validate\_brazilian\_security\<close>

definition sec_encryption :: "regex list" where
  "sec_encryption =
     [[lit ''aes'' @ [Opt (Cls ''-_'')] @ lit ''256''],
      [lit ''tls'' @ us @ lit ''1.3''],
      [lit ''encrypt'']]"

definition sec_audit :: "regex list" where
  "sec_audit =
     [[lit ''audit'' @ us @ lit ''trail''],
      [lit ''log'' @ us @ lit ''access''],
      [lit ''audit'' @ us @ lit ''log'']]"

definition sec_access_control :: "regex list" where
  "sec_access_control =
     [[lit ''role'' @ us @ lit ''based''],
      [lit ''multi'' @ us @ lit ''factor''],
      [lit ''2fa'', lit ''two'' @ us @ lit ''factor'']]"

definition sec_data_protection :: "regex list" where
  "sec_data_protection =
     [[lit ''data'' @ us @ lit ''masking''],
      [lit ''pseudonymiza'' @ cls [CHR ''c'', c_cedilla] @ cls [a_tilde, CHR ''a''] @ lit ''o''],
      [lit ''anonymiza'' @ cls [CHR ''c'', c_cedilla] @ cls [a_tilde, CHR ''a''] @ lit ''o'']]"

definition sec_code_body ::
  "string \<Rightarrow> bool \<times> bool \<times> bool \<times> bool \<Rightarrow> bool \<times> bool \<times> bool \<times> bool" where
  "sec_code_body text fl =
     (case fl of (encryption, audit_trail, access_control, data_protection) \<Rightarrow>
        let content = lower text
        in (encryption \<or> any_search False sec_encryption content,
            audit_trail \<or> any_search False sec_audit content,
            access_control \<or> any_search False sec_access_control content,
            data_protection \<or> any_search False sec_data_protection content))"

definition validate_brazilian_security :: "fs \<Rightarrow> results \<Rightarrow> py_error + results" where
  "validate_brazilian_security t r0 =
     bind_e (try_each_file sec_code_body (code_files t) (False, False, False, False)) (\<lambda>fl.
     case fl of (encryption, audit_trail, access_control, data_protection) \<Rightarrow>
     let st1 = credit encryption 25
                 (security_issue ''Missing encryption implementation'')
                 (0, add_check ''security'' r0);
         st2 = credit audit_trail 25
                 (security_issue ''Missing audit trail implementation'') st1;
         st3 = credit access_control 25
                 (security_issue ''Missing access control implementation'') st2
     in
     case credit data_protection 25
            (add_recommendation
               ''Implement data protection measures (masking, anonymization)'') st3 of
       (sc, r) \<Rightarrow>
         Inr (warn_below_70 ''Security'' sc (r\<lparr>security := (security r)\<lparr>score := sc\<rparr>\<rparr>)))"

subsection \<open>validate\_all, \_calculate\_overall\_score and main\<close>

text \<open>
  The mean is taken over the categories whose score is above 0, with Python's floor
  division \<open>//\<close>; \<open>valid\<close> is only ever switched off, below 70.
\<close>

definition calculate_overall_score :: "results \<Rightarrow> results" where
  "calculate_overall_score r =
     (let scores = filter (\<lambda>s. s > 0)
                     (map score [lgpd r, pix r, openbanking r, security r]);
          r1 = (if scores \<noteq> []
                then r\<lparr>compliance_score := sum_list scores div int (length scores)\<rparr>
                else r\<lparr>compliance_score := 0\<rparr>)
      in if compliance_score r1 < 70 then r1\<lparr>valid := False\<rparr> else r1)"

definition run_check :: "fs \<Rightarrow> string \<Rightarrow> results \<Rightarrow> py_error + results" where
  "run_check t check r =
     (if check = ''lgpd'' then validate_lgpd_compliance t r
      else if check = ''pix'' then validate_pix_compliance t r
      else if check = ''openbanking'' then validate_openbanking_compliance t r
      else if check = ''security'' then validate_brazilian_security t r
      else Inr r)"

fun run_checks :: "fs \<Rightarrow> string list \<Rightarrow> results \<Rightarrow> py_error + results" where
  "run_checks t [] r = Inr r"
| "run_checks t (check # rest) r = bind_e (run_check t check r) (run_checks t rest)"

text \<open>
  \<open>validate_all(checks)\<close> on a validator whose \<open>self.results\<close> is \<open>r\<close>; an empty (or
  absent) list of checks stands for all four.
\<close>

definition validate_all :: "fs \<Rightarrow> string list \<Rightarrow> results \<Rightarrow> py_error + results" where
  "validate_all t checks r =
     bind_e (run_checks t
               (if checks = [] then [''lgpd'', ''pix'', ''openbanking'', ''security'']
                else checks) r)
       (\<lambda>r'. Inr (calculate_overall_score r'))"

text \<open>
  \<open>main\<close>: a fresh validator on the directory, the report of its results, and the exit
  status. An exception that leaves \<open>validate_all\<close> ends the process with a traceback and
  no report (\<open>Inl\<close>).
\<close>

definition exit_status :: "results \<Rightarrow> int" where
  "exit_status r = (if valid r then 0 else 1)"

definition main :: "fs \<Rightarrow> string list \<Rightarrow> py_error + results \<times> int" where
  "main t checks =
     bind_e (validate_all t checks init_results) (\<lambda>r. Inr (r, exit_status r))"

section \<open>brazilian-fintech-compliance: compliance-validator.py\<close>

text \<open>
  A category of \<open>self.validation_results\<close> carries its own recommendations next to its
  score and issues (the field \<open>recs\<close>: the key \<open>'recommendations'\<close> of the category).
\<close>

record rcategory = category +
  recs :: "string list"

record validation_results =
  lgpd_compliance :: rcategory
  bcb_regulations :: rcategory
  data_protection :: rcategory
  financial_security :: rcategory
  overall_score :: int

definition init_rcategory :: rcategory where
  "init_rcategory = \<lparr>score = 0, issues = [], recs = []\<rparr>"

definition init_validation_results :: validation_results where
  "init_validation_results =
     \<lparr>lgpd_compliance = init_rcategory, bcb_regulations = init_rcategory,
      data_protection = init_rcategory, financial_security = init_rcategory,
      overall_score = 0\<rparr>"

subsection \<open>The pattern tables of \_\_init\_\_\<close>

definition lgpd_patterns_consent_management :: "string list" where
  "lgpd_patterns_consent_management =
     [''consent'', ''consentimento'', ''privacy'', ''privacidade'',
      ''data_subject'', ''titular_dados'', ''user_rights'', ''direitos_titular'']"

definition lgpd_patterns_data_minimization :: "string list" where
  "lgpd_patterns_data_minimization =
     [''data_minimization'', ''minimizacao_dados'', ''only_necessary'',
      ''purpose_limitation'', ''limitacao_finalidade'']"

definition lgpd_patterns_retention_policies :: "string list" where
  "lgpd_patterns_retention_policies =
     [''retention'', ''retencao'', ''data_retention'', ''politica_retentao'',
      ''data_deletion'', ''exclusao_dados'', ''right_to_be_forgotten'']"

definition lgpd_patterns_security_measures :: "string list" where
  "lgpd_patterns_security_measures =
     [''encryption'', ''criptografia'', ''access_control'', ''controle_acesso'',
      ''audit_logging'', ''registro_auditoria'', ''security'', ''seguranca'']"

definition bcb_patterns_pix_compliance :: "string list" where
  "bcb_patterns_pix_compliance =
     [''pix'', ''instant_payment'', ''pagamento_instantaneo'',
      ''transaction_limits'', ''limites_transacao'',
      ''fraud_detection'', ''detecao_fraude'', ''circular_4015'']"

definition bcb_patterns_open_banking :: "string list" where
  "bcb_patterns_open_banking =
     [''open_banking'', ''banco_aberto'', ''api_security'',
      ''oauth2'', ''rate_limiting'', ''api_documentation'',
      ''circular_4842'']"

definition bcb_patterns_transaction_logging :: "string list" where
  "bcb_patterns_transaction_logging =
     [''transaction_log'', ''registro_transacao'', ''audit_trail'',
      ''financial_audit'', ''auditoria_financeira'',
      ''5_year_retention'', ''retencao_5_anos'']"

definition security_patterns_authentication :: "string list" where
  "security_patterns_authentication =
     [''mfa'', ''multi_factor'', ''biometric'', ''biometria'',
      ''device_trust'', ''confianca_dispositivo'', ''session_management'']"

definition security_patterns_encryption :: "string list" where
  "security_patterns_encryption =
     [''aes-256'', ''tls_1.3'', ''end_to_end_encryption'',
      ''data_encryption'', ''criptografia_dados'']"

definition security_patterns_fraud_prevention :: "string list" where
  "security_patterns_fraud_prevention =
     [''fraud_detection'', ''behavioral_analysis'', ''risk_scoring'',
      ''anomaly_detection'', ''transaction_monitoring'']"

subsection \<open>Collecting and reading the files\<close>

definition source_patterns :: "string list" where
  "source_patterns =
     [''.py'', ''.js'', ''.ts'', ''.tsx'', ''.jsx'', ''.java'', ''.go'', ''.rs'', ''.php'',
      ''.json'', ''.yaml'', ''.yml'', ''.md'', ''.sql'']"

definition is_file :: "node \<Rightarrow> bool" where
  "is_file n = (n \<noteq> Dir)"

text \<open>
  \<open>_collect_source_files\<close>: the matches of each pattern in turn, one list after the
  other, and of these the files.
\<close>

definition collect_source_files :: "fs \<Rightarrow> (path \<times> node) list" where
  "collect_source_files t =
     filter (\<lambda>(p, n). is_file n) (concat (map (rglob t) source_patterns))"

text \<open>
  The loop of \<open>_analyze_files_content\<close> over \<open>source_files[:50]\<close>; its bare
  \<^verbatim>\<open>except\<close> skips a file on any failure of the read.
\<close>

fun read_into :: "(path \<times> node) list \<Rightarrow> string \<Rightarrow> string" where
  "read_into [] content = content"
| "read_into ((p, n) # fs) content =
     (case open_read n of
        Inl e \<Rightarrow> read_into fs content
      | Inr text \<Rightarrow> read_into fs (content @ lower text @ [CHR 0x0A]))"

definition analyze_files_content :: "(path \<times> node) list \<Rightarrow> string" where
  "analyze_files_content source_files = read_into (take 50 source_files) []"

definition check_pattern_presence :: "string \<Rightarrow> string list \<Rightarrow> bool" where
  "check_pattern_presence content patterns =
     list_ex (\<lambda>pattern. str_in (lower pattern) (lower content)) patterns"

subsection \<open>The four validations\<close>

text \<open>
  The step they repeat:
  \<^verbatim>\<open>if found: score += weight  else: issues.append(i); recommendations.append(r)\<close>
\<close>

definition found_or_report :: "bool \<Rightarrow> int \<Rightarrow> string \<Rightarrow> string \<Rightarrow> rcategory \<Rightarrow> rcategory" where
  "found_or_report found weight issue rec c =
     (if found then c\<lparr>score := score c + weight\<rparr>
      else c\<lparr>issues := issues c @ [issue], recs := recs c @ [rec]\<rparr>)"

definition validate_lgpd_compliance_f ::
  "(path \<times> node) list \<Rightarrow> validation_results \<Rightarrow> validation_results" where
  "validate_lgpd_compliance_f source_files v =
     (let content_analysis = analyze_files_content source_files;
          c1 = found_or_report
                 (check_pattern_presence content_analysis lgpd_patterns_consent_management) 25
                 ''Consent management system not found - LGPD Art. 7 requires explicit consent''
                 ''Implement consent collection, recording, and management system''
                 (lgpd_compliance v);
          c2 = found_or_report
                 (check_pattern_presence content_analysis lgpd_patterns_data_minimization) 20
                 ''Data minimization principles not implemented - LGPD Art. 6''
                 ''Implement data minimization and purpose limitation'' c1;
          c3 = found_or_report
                 (check_pattern_presence content_analysis lgpd_patterns_retention_policies) 25
                 ''Data retention policies not defined - LGPD Art. 15''
                 ''Define and implement data retention and deletion policies'' c2;
          c4 = found_or_report
                 (check_pattern_presence content_analysis lgpd_patterns_security_measures) 30
                 ''Security measures not properly implemented - LGPD Art. 46''
                 ''Implement appropriate technical and organizational security measures'' c3
      in v\<lparr>lgpd_compliance := c4\<rparr>)"

definition validate_bcb_regulations ::
  "(path \<times> node) list \<Rightarrow> validation_results \<Rightarrow> validation_results" where
  "validate_bcb_regulations source_files v =
     (let content_analysis = analyze_files_content source_files;
          c1 = found_or_report
                 (check_pattern_presence content_analysis bcb_patterns_pix_compliance) 35
                 ''PIX system not compliant with BCB Circular No 4.015''
                 ''Implement PIX transaction limits, fraud detection, and logging''
                 (bcb_regulations v);
          c2 = found_or_report
                 (check_pattern_presence content_analysis bcb_patterns_open_banking) 30
                 ''Open Banking API not compliant with BCB Circular No 4.842''
                 ''Implement API security, documentation, and data sharing standards'' c1;
          c3 = found_or_report
                 (check_pattern_presence content_analysis bcb_patterns_transaction_logging) 35
                 ''Financial transaction logging not implemented''
                 ''Implement 5-year transaction logging and audit trails'' c2
      in v\<lparr>bcb_regulations := c3\<rparr>)"

definition validate_data_protection ::
  "(path \<times> node) list \<Rightarrow> validation_results \<Rightarrow> validation_results" where
  "validate_data_protection source_files v =
     (let content_analysis = analyze_files_content source_files;
          c1 = found_or_report
                 (check_pattern_presence content_analysis security_patterns_encryption) 40
                 ''Data encryption not properly implemented''
                 ''Implement AES-256 encryption and TLS 1.3 for data in transit''
                 (data_protection v);
          c2 = found_or_report
                 (check_pattern_presence content_analysis
                    [''access_control'', ''controle_acesso'', ''authorization'', ''role_based'']) 30
                 ''Access control system not implemented''
                 ''Implement role-based access control with audit logging'' c1;
          c3 = found_or_report
                 (check_pattern_presence content_analysis
                    [''audit'', ''audit_log'', ''logging'', ''registro_auditoria'']) 30
                 ''Audit logging system not implemented''
                 ''Implement comprehensive audit logging for all data access'' c2
      in v\<lparr>data_protection := c3\<rparr>)"

definition validate_financial_security ::
  "(path \<times> node) list \<Rightarrow> validation_results \<Rightarrow> validation_results" where
  "validate_financial_security source_files v =
     (let content_analysis = analyze_files_content source_files;
          c1 = found_or_report
                 (check_pattern_presence content_analysis security_patterns_authentication) 30
                 ''Multi-factor authentication not implemented''
                 ''Implement MFA, biometric authentication, and device trust''
                 (financial_security v);
          c2 = found_or_report
                 (check_pattern_presence content_analysis security_patterns_fraud_prevention) 35
                 ''Fraud detection system not implemented''
                 ''Implement real-time fraud detection and behavioral analysis'' c1;
          c3 = found_or_report
                 (check_pattern_presence content_analysis
                    [''security_monitoring'', ''intrusion_detection'', ''security_events'']) 35
                 ''Security monitoring not implemented''
                 ''Implement 24/7 security monitoring and incident response'' c2
      in v\<lparr>financial_security := c3\<rparr>)"

definition calculate_overall_score_f :: "validation_results \<Rightarrow> validation_results" where
  "calculate_overall_score_f v =
     (let scores = [score (lgpd_compliance v), score (bcb_regulations v),
                    score (data_protection v), score (financial_security v)]
      in v\<lparr>overall_score := sum_list scores div int (length scores)\<rparr>)"

subsection \<open>validate\_project and main\<close>

text \<open>
  The run on the source files once they are collected: the four validations and the
  overall score.
\<close>

definition validate_files :: "(path \<times> node) list \<Rightarrow> validation_results \<Rightarrow> validation_results" where
  "validate_files source_files v =
     calculate_overall_score_f
       (validate_financial_security source_files
         (validate_data_protection source_files
           (validate_bcb_regulations source_files
             (validate_lgpd_compliance_f source_files v))))"

text \<open>
  \<open>validate_project(project_path)\<close> on a validator whose \<open>self.validation_results\<close> is
  \<open>v\<close>. \<open>project_path\<close> is the path as \<open>pathlib\<close> prints it and \<open>t\<close> what is found there.
  The value is the dictionary with the one key \<open>'error'\<close> (\<open>Inl\<close> of its message) or
  the results.
\<close>

definition validate_project ::
  "string \<Rightarrow> fs \<Rightarrow> validation_results \<Rightarrow> string + validation_results" where
  "validate_project project_path t v =
     (if \<not> root_exists t then Inl (''Project path not found: '' @ project_path)
      else Inr (validate_files (collect_source_files t) v))"

definition category_report :: "string \<Rightarrow> rcategory \<Rightarrow> string list" where
  "category_report title c =
     [title, ''Score: '' @ str_int (score c) @ ''/100'']
     @ (if issues c \<noteq> [] then ''Issues Found:'' # map (\<lambda>i. ''  - '' @ i) (issues c) else [])
     @ (if recs c \<noteq> [] then ''Recommendations:'' # map (\<lambda>r. ''  - '' @ r) (recs c) else [])"

text \<open>The lines of \<open>generate_report\<close>, which it joins with newlines.\<close>

definition generate_report :: "validation_results \<Rightarrow> string list" where
  "generate_report v =
     [''BRAZILIAN FINTECH COMPLIANCE REPORT'', replicate 50 CHR ''='',
      ''Overall Score: '' @ str_int (overall_score v) @ ''/100'', []]
     @ category_report ''LGPD COMPLIANCE:'' (lgpd_compliance v) @ [[]]
     @ category_report ''BCB REGULATIONS:'' (bcb_regulations v) @ [[]]
     @ category_report ''DATA PROTECTION:'' (data_protection v) @ [[]]
     @ category_report ''FINANCIAL SECURITY:'' (financial_security v)"

text \<open>
  What a run of \<open>main\<close> leaves behind: the exit status, the lines \<open>main\<close> printed, and
  the results when a scan was made. \<open>args\<close> is \<open>sys.argv[1:]\<close>; \<open>t\<close> is what is found
  at the path the one argument names.
\<close>

record run =
  exit_code :: int
  printed :: "string list"
  scanned :: "validation_results option"

definition main_f :: "string list \<Rightarrow> fs \<Rightarrow> run" where
  "main_f args t =
     (if length args \<noteq> 1 then
        \<lparr>exit_code = 1,
         printed = [''Usage: python compliance_validator.py <project_directory>''],
         scanned = None\<rparr>
      else
        (case validate_project (hd args) t init_validation_results of
           Inl msg \<Rightarrow> \<lparr>exit_code = 1, printed = [''Error: '' @ msg], scanned = None\<rparr>
         | Inr v \<Rightarrow>
             \<lparr>exit_code = (if overall_score v \<ge> 80 then 0
                           else if overall_score v \<ge> 60 then 1 else 2),
              printed = generate_report v,
              scanned = Some v\<rparr>))"

section \<open>aegis-architect: performance\_audit.py\<close>

text \<open>
  \<open>self.results\<close> of the auditor. The overall score is the float
  \<open>round(sum(scores) / len(scores), 1)\<close>; it is modelled as the rational number with
  one decimal that the float stands for. The fields \<open>overall_score_p\<close> and
  \<open>checks_performed_p\<close> are the keys \<open>'overall_score'\<close> and \<open>'checks_performed'\<close>.
\<close>

record perf_results =
  overall_score_p :: rat
  checks_performed_p :: "string list"
  voice_performance :: rcategory
  bundle_optimization :: rcategory
  database_performance :: rcategory
  realtime_performance :: rcategory
  mobile_optimization :: rcategory
  core_web_vitals :: rcategory

definition init_perf_results :: perf_results where
  "init_perf_results =
     \<lparr>overall_score_p = 0, checks_performed_p = [],
      voice_performance = init_rcategory, bundle_optimization = init_rcategory,
      database_performance = init_rcategory, realtime_performance = init_rcategory,
      mobile_optimization = init_rcategory, core_web_vitals = init_rcategory\<rparr>"

subsection \<open>\_search\_in\_files\<close>

fun search_loop :: "regex \<Rightarrow> (path \<times> node) list \<Rightarrow> path list \<Rightarrow> py_error + path list" where
  "search_loop rx [] matches = Inr matches"
| "search_loop rx ((p, n) # fs) matches =
     (case open_read n of
        Inl e \<Rightarrow>
          (if e = UnicodeDecodeError \<or> e = PermissionError then search_loop rx fs matches
           else Inl e)
      | Inr content \<Rightarrow>
          search_loop rx fs (if re_search True rx content then matches @ [p] else matches))"

text \<open>The files of every extension in turn; the value is the list of the matching paths.\<close>

definition search_in_files :: "fs \<Rightarrow> regex \<Rightarrow> string list \<Rightarrow> py_error + path list" where
  "search_in_files t pattern extensions =
     search_loop pattern (concat (map (\<lambda>ext. rglob t (''.'' @ ext)) extensions)) []"

text \<open>\<open>any(self._search_in_files(pattern, extensions) for pattern in patterns)\<close>\<close>

fun any_search_in_files :: "fs \<Rightarrow> regex list \<Rightarrow> string list \<Rightarrow> py_error + bool" where
  "any_search_in_files t [] extensions = Inr False"
| "any_search_in_files t (pattern # rest) extensions =
     bind_e (search_in_files t pattern extensions) (\<lambda>matches.
       if matches \<noteq> [] then Inr True else any_search_in_files t rest extensions)"

subsection \<open>The local state of an audit\<close>

text \<open>
  The locals of an audit function: the score, which starts at 100, and the lists
  \<open>issues\<close> and \<open>recommendations\<close>. \<open>deduct\<close> is the body of a failed check:
  \<^verbatim>\<open>score -= weight; issues.append(..); recommendations.append(..)\<close>,
  with the messages it appends (to \<open>issues\<close>, none or one).
\<close>

type_synonym audit = "int \<times> string list \<times> string list"

definition audit_start :: audit where
  "audit_start = (100, [], [])"

definition deduct :: "int \<Rightarrow> string list \<Rightarrow> string list \<Rightarrow> audit \<Rightarrow> audit" where
  "deduct weight new_issues new_recs a =
     (case a of (sc, iss, rcs) \<Rightarrow> (sc - weight, iss @ new_issues, rcs @ new_recs))"

text \<open>The closing lines of an audit function: \<open>max(0, score)\<close> and the two lists.\<close>

definition audit_category :: "audit \<Rightarrow> rcategory" where
  "audit_category a =
     (case a of (sc, iss, rcs) \<Rightarrow> \<lparr>score = max 0 sc, issues = iss, recs = rcs\<rparr>)"

definition add_check_p :: "string \<Rightarrow> perf_results \<Rightarrow> perf_results" where
  "add_check_p name r = r\<lparr>checks_performed_p := checks_performed_p r @ [name]\<rparr>"

definition replace_underscores :: "string \<Rightarrow> string" where
  "replace_underscores s = map (\<lambda>c. if c = CHR ''_'' then CHR '' '' else c) s"

definition dash_ws :: "item list" where
  \<comment> \<open>the class of whitespace, underscore and hyphen, optional\<close>
  "dash_ws = [Opt (Cls (whitespace @ ''_-''))]"

definition ts_tsx :: "string list" where
  "ts_tsx = [''ts'', ''tsx'']"

subsection \<open>audit\_voice\_performance\<close>

definition optimization_patterns :: "(string \<times> regex) list" where
  "optimization_patterns =
     [(''preload_models'', [lit ''preload'', lit ''precache'']),
      (''web_workers'', [lit ''web'' @ dash_ws @ lit ''worker'',
                         lit ''worker'' @ dash_ws @ lit ''thread'']),
      (''caching'', [lit ''cache'' @ any_run @ lit ''voice'',
                     lit ''voice'' @ any_run @ lit ''cache'']),
      (''batching'', [lit ''batch'' @ any_run @ lit ''voice'',
                      lit ''voice'' @ any_run @ lit ''batch''])]"

definition async_patterns :: "regex list" where
  "async_patterns =
     [[lit ''async'' @ any_run @ lit ''voice'', lit ''voice'' @ any_run @ lit ''async''],
      [lit ''await'' @ any_run @ lit ''voice'', lit ''voice'' @ any_run @ lit ''await''],
      [lit ''promise'' @ any_run @ lit ''voice'', lit ''voice'' @ any_run @ lit ''promise'']]"

definition response_time_pattern :: regex where
  "response_time_pattern =
     [lit ''500ms'',
      lit ''<'' @ any_run @ lit ''500'' @ any_run @ lit ''ms'',
      lit ''voice'' @ any_run @ lit ''response'' @ any_run @ lit ''time'']"

fun optimization_loop :: "fs \<Rightarrow> (string \<times> regex) list \<Rightarrow> audit \<Rightarrow> py_error + audit" where
  "optimization_loop t [] a = Inr a"
| "optimization_loop t ((pattern_name, pattern) # rest) a =
     bind_e (search_in_files t pattern [''ts'', ''tsx'', ''js'']) (\<lambda>matches.
       optimization_loop t rest
         (if matches = [] then
            deduct 15
              [''Missing '' @ replace_underscores pattern_name @ '' for voice processing'']
              [''Implement '' @ replace_underscores pattern_name
                 @ '' to improve voice response times''] a
          else a))"

definition audit_voice_performance :: "fs \<Rightarrow> perf_results \<Rightarrow> py_error + perf_results" where
  "audit_voice_performance t r =
     bind_e (optimization_loop t optimization_patterns audit_start) (\<lambda>a1.
     bind_e (any_search_in_files t async_patterns ts_tsx) (\<lambda>async_found.
     let a2 = (if \<not> async_found then
                 deduct 20 [''Voice processing not properly asynchronous'']
                   [''Ensure voice processing is non-blocking with async/await''] a1
               else a1)
     in
     bind_e (search_in_files t response_time_pattern [''ts'', ''tsx'', ''md''])
       (\<lambda>performance_comments.
     let a3 = (if performance_comments = [] then
                 deduct 10 [] [''Document voice response time targets (<500ms)''] a2
               else a2)
     in Inr ((add_check_p ''voice_performance'' r)\<lparr>voice_performance := audit_category a3\<rparr>))))"

subsection \<open>audit\_bundle\_optimization\<close>

definition optimization_features :: "(string \<times> regex) list" where
  "optimization_features =
     [(''code_splitting'', [lit ''codeSplitting'', lit ''splitVendorChunkPlugin'']),
      (''tree_shaking'', [lit ''treeShaking'', lit ''treeshake'']),
      (''minification'', [lit ''minify'', lit ''terser'']),
      (''asset_optimization'', [lit ''asset'', lit ''assetInlineLimit''])]"

definition lazy_patterns :: "regex list" where
  "lazy_patterns =
     [[lit ''lazy'' @ [Star (Cls whitespace)] @ lit ''(''],
      [lit ''dynamic'' @ [Star (Cls whitespace)] @ lit ''('' @ [Star (Cls whitespace)]
         @ lit ''import''],
      [lit ''Suspense''],
      [lit ''react.lazy'']]"

definition bundle_analysis_pattern :: regex where
  "bundle_analysis_pattern =
     [lit ''bundle'' @ dash_ws @ lit ''size'', lit ''webpack'' @ dash_ws @ lit ''bundle'',
      lit ''analyze'']"

fun feature_loop :: "string \<Rightarrow> (string \<times> regex) list \<Rightarrow> audit \<Rightarrow> audit" where
  "feature_loop config_content [] a = a"
| "feature_loop config_content ((feature, pattern) # rest) a =
     feature_loop config_content rest
       (if \<not> re_search True pattern config_content then
          deduct 20
            [''Missing '' @ replace_underscores feature @ '' in build configuration'']
            [''Enable '' @ replace_underscores feature @ '' for smaller bundles''] a
        else a)"

text \<open>
  The entry at a path, for the file the audit opens by name. The read of
  \<open>vite.config.ts\<close> stands under no \<^verbatim>\<open>try\<close>.
\<close>

definition vite_config :: "fs \<Rightarrow> py_error + audit" where
  "vite_config t =
     (case map_of (entries t) [''vite.config.ts''] of
        Some n \<Rightarrow>
          bind_e (open_read n) (\<lambda>config_content.
            Inr (feature_loop config_content optimization_features audit_start))
      | None \<Rightarrow>
          Inr (deduct 50 [''No Vite configuration found'']
                 [''Set up Vite configuration with optimization features''] audit_start))"

definition audit_bundle_optimization :: "fs \<Rightarrow> perf_results \<Rightarrow> py_error + perf_results" where
  "audit_bundle_optimization t r =
     bind_e (vite_config t) (\<lambda>a1.
     bind_e (any_search_in_files t lazy_patterns ts_tsx) (\<lambda>lazy_found.
     let a2 = (if \<not> lazy_found then
                 deduct 25 [''No code splitting with lazy loading found'']
                   [''Implement lazy loading for better initial load times''] a1
               else a1)
     in
     bind_e (search_in_files t bundle_analysis_pattern [''json'', ''js'']) (\<lambda>bundle_analysis.
     let a3 = (if bundle_analysis = [] then
                 deduct 15 [] [''Set up bundle size analysis and monitoring''] a2
               else a2)
     in Inr ((add_check_p ''bundle_optimization'' r)
               \<lparr>bundle_optimization := audit_category a3\<rparr>))))"

subsection \<open>audit\_database\_performance\<close>

text \<open>The loop over the migrations, left at the first file with an index; no \<^verbatim>\<open>try\<close>.\<close>

fun index_loop :: "(path \<times> node) list \<Rightarrow> py_error + bool" where
  "index_loop [] = Inr False"
| "index_loop ((p, n) # fs) =
     (case open_read n of
        Inl e \<Rightarrow> Inl e
      | Inr content \<Rightarrow>
          if str_in ''CREATE INDEX'' content \<or> str_in ''CREATE UNIQUE INDEX'' content
          then Inr True else index_loop fs)"

definition backslash :: char where "backslash = CHR 0x5C"
definition quote :: char where "quote = CHR 0x27"
definition dquote :: char where "dquote = CHR 0x22"

text \<open>The query patterns, each with its text, which the issue quotes.\<close>

definition query_patterns :: "(string \<times> regex) list" where
  "query_patterns =
     [([backslash] @ ''.select'' @ [backslash] @ ''('' @ [backslash] @ ''s*[''
         @ [dquote, backslash, quote] @ '']'' @ [backslash] @ ''*[''
         @ [dquote, backslash, quote] @ '']'',
       [lit ''.select('' @ [Star (Cls whitespace)] @ cls [dquote, quote] @ lit ''*''
          @ cls [dquote, quote]]),
      (''fetch.*all'', [lit ''fetch'' @ any_run @ lit ''all'']),
      (''N'' @ [backslash] @ ''+1.*query'', [lit ''N+1'' @ any_run @ lit ''query''])]"

definition cache_patterns :: "regex list" where
  "cache_patterns =
     [[lit ''useQuery'' @ any_run @ lit ''staleTime''],
      [lit ''queryClient'' @ any_run @ lit ''setQueryData''],
      [lit ''supabase'' @ any_run @ lit ''cache''],
      [lit ''react'' @ any_run @ lit ''query'' @ any_run @ lit ''cache'']]"

fun query_loop :: "fs \<Rightarrow> (string \<times> regex) list \<Rightarrow> audit \<Rightarrow> py_error + audit" where
  "query_loop t [] a = Inr a"
| "query_loop t ((pattern_text, pattern) # rest) a =
     bind_e (search_in_files t pattern [''ts'', ''tsx'', ''js'']) (\<lambda>matches.
       query_loop t rest
         (if matches \<noteq> [] then
            deduct 20 [''Potential inefficient query pattern: '' @ pattern_text]
              [''Optimize database queries for better performance''] a
          else a))"

definition database_indexes :: "fs \<Rightarrow> py_error + audit" where
  "database_indexes t =
     (if exists_path t [''supabase''] \<and> exists_path t migrations_dir then
        bind_e (index_loop (glob t migrations_dir ''.sql'')) (\<lambda>index_found.
          Inr (if index_found then audit_start
               else deduct 30 [''No database indexes found in migrations'']
                      [''Add indexes for frequently queried columns''] audit_start))
      else Inr audit_start)"

definition audit_database_performance :: "fs \<Rightarrow> perf_results \<Rightarrow> py_error + perf_results" where
  "audit_database_performance t r =
     bind_e (database_indexes t) (\<lambda>a1.
     bind_e (query_loop t query_patterns a1) (\<lambda>a2.
     bind_e (any_search_in_files t cache_patterns ts_tsx) (\<lambda>cache_found.
     let a3 = (if \<not> cache_found then
                 deduct 25 [] [''Implement query result caching for better performance''] a2
               else a2)
     in Inr ((add_check_p ''database_performance'' r)
               \<lparr>database_performance := audit_category a3\<rparr>))))"

subsection \<open>audit\_realtime\_performance\<close>

definition realtime_patterns :: "regex list" where
  "realtime_patterns =
     [[lit ''supabase'' @ any_run @ lit ''channel''],
      [lit ''on('' @ cls [quote, dquote] @ lit ''postgres_changes'' @ cls [quote, dquote]],
      [lit ''realtime'' @ any_run @ lit ''subscribe''],
      [lit ''subscribeToTable'']]"

definition sub_optimization_pattern :: regex where
  "sub_optimization_pattern =
     [lit ''channel'' @ any_run @ lit ''unsubscribe'',
      lit ''cleanup'' @ any_run @ lit ''subscription'']"

definition optimistic_patterns :: "regex list" where
  "optimistic_patterns =
     [[lit ''useMutation'' @ any_run @ lit ''onSuccess''],
      [lit ''optimistic'' @ any_run @ lit ''update''],
      [lit ''queryClient'' @ any_run @ lit ''invalidateQueries'']]"

definition audit_realtime_performance :: "fs \<Rightarrow> perf_results \<Rightarrow> py_error + perf_results" where
  "audit_realtime_performance t r =
     bind_e (any_search_in_files t realtime_patterns ts_tsx) (\<lambda>realtime_found.
     let a1 = (if realtime_found then audit_start
               else deduct 40 []
                      [''Implement real-time synchronization for instant updates''] audit_start)
     in
     bind_e (search_in_files t sub_optimization_pattern ts_tsx) (\<lambda>sub_optimization.
     let a2 = (if realtime_found \<and> sub_optimization = [] then
                 deduct 20 [''Missing subscription cleanup'']
                   [''Ensure real-time subscriptions are properly cleaned up''] a1
               else a1)
     in
     bind_e (any_search_in_files t optimistic_patterns ts_tsx) (\<lambda>optimistic_found.
     let a3 = (if \<not> optimistic_found then
                 deduct 25 [] [''Implement optimistic updates for better UX''] a2
               else a2)
     in Inr ((add_check_p ''realtime_performance'' r)
               \<lparr>realtime_performance := audit_category a3\<rparr>))))"

subsection \<open>audit\_mobile\_optimization\<close>

definition responsive_patterns :: "regex list" where
  "responsive_patterns =
     [[lit ''responsive'', lit ''mobile'', lit ''tablet''],
      [lit ''breakpoint'', lit ''screen'' @ any_run @ lit ''size''],
      [lit ''tailwind'' @ any_run @ lit ''sm:'', lit ''md:'', lit ''lg:'', lit ''xl:''],
      [lit ''media'' @ any_run @ lit ''query'']]"

definition touch_patterns :: "regex list" where
  "touch_patterns =
     [[lit ''onClick'', lit ''onTouch''],
      [lit ''button'' @ any_run @ lit ''size''],
      [lit ''touch'' @ any_run @ lit ''target''],
      [lit ''mobile'' @ any_run @ lit ''optimized'']]"

definition mobile_optimizations :: "regex list" where
  "mobile_optimizations =
     [[lit ''mobile'' @ any_run @ lit ''viewport'', lit ''viewport'' @ any_run @ lit ''scale''],
      [lit ''touch'' @ any_run @ lit ''action'', lit ''user'' @ any_run @ lit ''select''],
      [lit ''mobile'' @ any_run @ lit ''performance'',
       lit ''device'' @ any_run @ lit ''memory'']]"

definition audit_mobile_optimization :: "fs \<Rightarrow> perf_results \<Rightarrow> py_error + perf_results" where
  "audit_mobile_optimization t r =
     bind_e (any_search_in_files t responsive_patterns [''ts'', ''tsx'', ''css''])
       (\<lambda>responsive_found.
     let a1 = (if responsive_found then audit_start
               else deduct 30 []
                      [''Implement responsive design for mobile devices''] audit_start)
     in
     bind_e (any_search_in_files t touch_patterns ts_tsx) (\<lambda>touch_found.
     let a2 = (if \<not> touch_found then
                 deduct 25 []
                   [''Ensure buttons and interactive elements are touch-friendly''] a1
               else a1)
     in
     bind_e (any_search_in_files t mobile_optimizations [''tsx'', ''html'', ''css''])
       (\<lambda>mobile_found.
     let a3 = (if \<not> mobile_found then
                 deduct 20 []
                   [''Add mobile-specific viewport and performance optimizations''] a2
               else a2)
     in Inr ((add_check_p ''mobile_optimization'' r)
               \<lparr>mobile_optimization := audit_category a3\<rparr>))))"

subsection \<open>audit\_core\_web\_vitals\<close>

definition monitoring_patterns :: "regex list" where
  "monitoring_patterns =
     [[lit ''web'' @ [Opt (Cls ''-_'')] @ lit ''vitals''],
      [lit ''performance'' @ any_run @ lit ''observer''],
      [lit ''LCP'', lit ''INP'', lit ''CLS''],
      [lit ''performance'' @ any_run @ lit ''mark'',
       lit ''performance'' @ any_run @ lit ''measure'']]"

definition image_patterns :: "regex list" where
  "image_patterns =
     [[lit ''next'' @ cls [CHR ''/'', backslash] @ lit ''image'', lit ''next/image''],
      [lit ''lazy'' @ any_run @ lit ''load'' @ any_run @ lit ''image'',
       lit ''image'' @ any_run @ lit ''lazy''],
      [lit ''srcset'', lit ''sizes''],
      [lit ''webp'', lit ''avif'', lit ''optimization'']]"

definition font_patterns :: "regex list" where
  "font_patterns =
     [[lit ''font'' @ any_run @ lit ''display'' @ any_run @ lit ''swap''],
      [lit ''preload'' @ any_run @ lit ''font''],
      [lit ''font'' @ any_run @ lit ''optimization''],
      [lit ''webfont'' @ any_run @ lit ''loader'']]"

definition layout_patterns :: "regex list" where
  "layout_patterns =
     [[lit ''CLS'',
       lit ''cumulative'' @ any_run @ lit ''layout'' @ any_run @ lit ''shift''],
      [lit ''layout'' @ any_run @ lit ''shift'', lit ''layout'' @ any_run @ lit ''stability''],
      [lit ''animation'' @ any_run @ lit ''hardware'', lit ''gpu'']]"

definition audit_core_web_vitals :: "fs \<Rightarrow> perf_results \<Rightarrow> py_error + perf_results" where
  "audit_core_web_vitals t r =
     bind_e (any_search_in_files t monitoring_patterns [''ts'', ''tsx'', ''js''])
       (\<lambda>monitoring_found.
     let a1 = (if monitoring_found then audit_start
               else deduct 30 [] [''Set up Core Web Vitals monitoring''] audit_start)
     in
     bind_e (any_search_in_files t image_patterns [''ts'', ''tsx'', ''jsx'']) (\<lambda>image_found.
     let a2 = (if \<not> image_found then
                 deduct 25 [] [''Optimize images for better LCP''] a1
               else a1)
     in
     bind_e (any_search_in_files t font_patterns [''tsx'', ''html'', ''css'']) (\<lambda>font_found.
     let a3 = (if \<not> font_found then
                 deduct 20 [] [''Optimize font loading for better performance''] a2
               else a2)
     in
     bind_e (any_search_in_files t layout_patterns [''ts'', ''tsx'', ''css'']) (\<lambda>layout_found.
     let a4 = (if \<not> layout_found then
                 deduct 25 [] [''Ensure layout stability to prevent CLS''] a3
               else a3)
     in Inr ((add_check_p ''core_web_vitals'' r)
               \<lparr>core_web_vitals := audit_category a4\<rparr>)))))"

subsection \<open>calculate\_overall\_score, audit\_all and main\<close>

text \<open>
  \<open>round(x, 1)\<close>: the nearest number with one decimal, a tie going to the even last
  digit.
\<close>

definition round1 :: "rat \<Rightarrow> rat" where
  "round1 x =
     (let y = x * 10; f = \<lfloor>y\<rfloor>
      in if y - of_int f < 1 / 2 then of_int f / 10
         else if y - of_int f > 1 / 2 then of_int (f + 1) / 10
         else of_int (if even f then f else f + 1) / 10)"

definition calculate_overall_score_p :: "perf_results \<Rightarrow> perf_results" where
  "calculate_overall_score_p r =
     (let scores = [score (voice_performance r), score (bundle_optimization r),
                    score (database_performance r), score (realtime_performance r),
                    score (mobile_optimization r), score (core_web_vitals r)]
      in r\<lparr>overall_score_p := round1 (of_int (sum_list scores) / of_nat (length scores))\<rparr>)"

definition audit_all :: "fs \<Rightarrow> perf_results \<Rightarrow> py_error + perf_results" where
  "audit_all t r =
     bind_e (audit_voice_performance t r) (\<lambda>r1.
     bind_e (audit_bundle_optimization t r1) (\<lambda>r2.
     bind_e (audit_database_performance t r2) (\<lambda>r3.
     bind_e (audit_realtime_performance t r3) (\<lambda>r4.
     bind_e (audit_mobile_optimization t r4) (\<lambda>r5.
     bind_e (audit_core_web_vitals t r5) (\<lambda>r6.
     Inr (calculate_overall_score_p r6)))))))"

text \<open>The exit status of \<open>main\<close>: \<open>0 if results['overall_score'] >= 70 else 1\<close>.\<close>

definition exit_status_p :: "perf_results \<Rightarrow> int" where
  "exit_status_p r = (if overall_score_p r \<ge> 70 then 0 else 1)"

definition main_p :: "fs \<Rightarrow> py_error + perf_results \<times> int" where
  "main_p t = bind_e (audit_all t init_perf_results) (\<lambda>r. Inr (r, exit_status_p r))"

section \<open>aegis-architect: voice\_performance\_analyzer.py\<close>

text \<open>
  \<open>self.results\<close> of the analyzer, as \<open>calculate_performance_score\<close> finds it after the
  analyses. The two dictionaries of flags are lists of their entries, in the order of
  the dictionary. The performance score is an \<open>int\<close> or a \<open>float\<close> with a half (a
  multiple of 7.5 enters it): a rational number. The fields \<open>issues_v\<close> and
  \<open>recommendations_v\<close> are the keys \<open>'issues'\<close> and \<open>'recommendations'\<close>.
\<close>

record voice_results =
  performance_score :: rat
  target_ms :: int
  voice_response_time :: int
  issues_v :: "string list"
  recommendations_v :: "string list"
  optimizations_found :: "string list"
  performance_patterns :: "(string \<times> bool) list"
  brazilian_patterns :: "(string \<times> bool) list"

definition init_voice_results :: "int \<Rightarrow> voice_results" where
  "init_voice_results target =
     \<lparr>performance_score = 0, target_ms = target, voice_response_time = 0,
      issues_v = [], recommendations_v = [], optimizations_found = [],
      performance_patterns =
        [(''voice_activity_detection'', False), (''processing_optimization'', False),
         (''caching_strategy'', False), (''memory_management'', False),
         (''regional_adaptation'', False)],
      brazilian_patterns =
        [(''portuguese_support'', False), (''regional_variations'', False),
         (''financial_terminology'', False), (''slang_recognition'', False)]\<rparr>"






text \<open>The exit status of its \<open>main\<close>.\<close>

definition exit_status_v :: "voice_results \<Rightarrow> int" where
  "exit_status_v r = (if voice_response_time r \<le> target_ms r then 0 else 1)"

section \<open>Specification-side definitions\<close>



text \<open>Results as \<open>__init__\<close> leaves them, but for the score of one category.\<close>

definition with_lgpd_score :: "int \<Rightarrow> results" where
  "with_lgpd_score s = init_results\<lparr>lgpd := \<lparr>score = s, issues = []\<rparr>\<rparr>"

subsection \<open>Trees and results the properties are stated on\<close>

text \<open>
  Five migrations under \<open>supabase/migrations\<close>, each declaring a policy and the
  consent, retention and audit columns; and one migration that is not UTF-8.
\<close>

definition consent_migration :: string where
  "consent_migration =
     ''CREATE POLICY own ON consents; consentimento, retention, created_at, updated_at''"

definition five_migrations :: fs where
  "five_migrations =
     Root [([''supabase''], Dir), ([''supabase'', ''migrations''], Dir),
           ([''supabase'', ''migrations'', ''001.sql''], Text consent_migration),
           ([''supabase'', ''migrations'', ''002.sql''], Text consent_migration),
           ([''supabase'', ''migrations'', ''003.sql''], Text consent_migration),
           ([''supabase'', ''migrations'', ''004.sql''], Text consent_migration),
           ([''supabase'', ''migrations'', ''005.sql''], Text consent_migration)]"

definition undecodable_migration :: fs where
  "undecodable_migration =
     Root [([''supabase''], Dir), ([''supabase'', ''migrations''], Dir),
           ([''supabase'', ''migrations'', ''001.sql''], Undecodable)]"

text \<open>
  An empty corpus: nothing under the root has a name ending in one of the extensions
  the three tools look for, and the two directories the checks ask for by name,
  \<open>docs/openbanking\<close> and \<open>supabase/migrations\<close>, are not there.
\<close>

definition scan_suffixes :: "string list" where
  "scan_suffixes =
     [''.ts'', ''.tsx'', ''.js'', ''.jsx'', ''.md'', ''.json'', ''.css'', ''.html'', ''.sql'',
      ''.py'', ''.java'', ''.go'', ''.rs'', ''.php'', ''.yaml'', ''.yml'']"

definition empty_corpus :: "fs \<Rightarrow> bool" where
  "empty_corpus t =
     (list_all (\<lambda>suf. rglob t suf = []) scan_suffixes
      \<and> \<not> exists_path t [''docs'', ''openbanking'']
      \<and> \<not> exists_path t migrations_dir)"

text \<open>
  What the three tools report on an empty corpus: the results of the compliance
  validator, of the performance audit and of the fintech validator.
\<close>

definition empty_report :: results where
  "empty_report =
     \<lparr>valid = False, compliance_score = 0, errors = [],
      warnings =
        [''LGPD compliance score: 0% (target: 70%+)'',
         ''PIX compliance score: 0% (target: 70%+)'',
         ''Open Banking compliance score: 0% (target: 70%+)'',
         ''Security compliance score: 0% (target: 70%+)''],
      recommendations =
        [''Create LGPD privacy policy documentation'',
         ''Implement PIX key type validation (CPF, CNPJ, email, phone)'',
         ''Create PIX API endpoints following BCB patterns'',
         ''Implement Open Banking customer data endpoints'',
         ''Implement Open Banking accounts endpoints'',
         ''Create Open Banking implementation documentation'',
         ''Implement data protection measures (masking, anonymization)''],
      checks_performed = [''lgpd'', ''pix'', ''openbanking'', ''security''],
      lgpd =
        \<lparr>score = 0,
         issues =
           [''Missing consent management implementation'',
            ''Missing data minimization implementation'',
            ''Missing user rights implementation'',
            ''Missing RLS for data protection'']\<rparr>,
      pix =
        \<lparr>score = 0,
         issues =
           [''Missing PIX transaction implementation'',
            ''Missing PIX security measures'']\<rparr>,
      openbanking =
        \<lparr>score = 0,
         issues =
           [''Missing Open Banking consent API'',
            ''Missing Open Banking security implementation'']\<rparr>,
      security =
        \<lparr>score = 0,
         issues =
           [''Missing encryption implementation'',
            ''Missing audit trail implementation'',
            ''Missing access control implementation'']\<rparr>\<rparr>"

definition empty_audit :: perf_results where
  "empty_audit =
     \<lparr>overall_score_p = 129 / 5,
      checks_performed_p =
        [''voice_performance'', ''bundle_optimization'', ''database_performance'',
         ''realtime_performance'', ''mobile_optimization'', ''core_web_vitals''],
      voice_performance =
        \<lparr>score = 10,
         issues =
           [''Missing preload models for voice processing'',
            ''Missing web workers for voice processing'',
            ''Missing caching for voice processing'',
            ''Missing batching for voice processing'',
            ''Voice processing not properly asynchronous''],
         recs =
           [''Implement preload models to improve voice response times'',
            ''Implement web workers to improve voice response times'',
            ''Implement caching to improve voice response times'',
            ''Implement batching to improve voice response times'',
            ''Ensure voice processing is non-blocking with async/await'',
            ''Document voice response time targets (<500ms)'']\<rparr>,
      bundle_optimization =
        \<lparr>score = 10,
         issues =
           [''No Vite configuration found'',
            ''No code splitting with lazy loading found''],
         recs =
           [''Set up Vite configuration with optimization features'',
            ''Implement lazy loading for better initial load times'',
            ''Set up bundle size analysis and monitoring'']\<rparr>,
      database_performance =
        \<lparr>score = 75, issues = [],
         recs = [''Implement query result caching for better performance'']\<rparr>,
      realtime_performance =
        \<lparr>score = 35, issues = [],
         recs =
           [''Implement real-time synchronization for instant updates'',
            ''Implement optimistic updates for better UX'']\<rparr>,
      mobile_optimization =
        \<lparr>score = 25, issues = [],
         recs =
           [''Implement responsive design for mobile devices'',
            ''Ensure buttons and interactive elements are touch-friendly'',
            ''Add mobile-specific viewport and performance optimizations'']\<rparr>,
      core_web_vitals =
        \<lparr>score = 0, issues = [],
         recs =
           [''Set up Core Web Vitals monitoring'',
            ''Optimize images for better LCP'',
            ''Optimize font loading for better performance'',
            ''Ensure layout stability to prevent CLS'']\<rparr>\<rparr>"

definition empty_validation :: validation_results where
  "empty_validation =
     \<lparr>lgpd_compliance =
        \<lparr>score = 0,
         issues =
           [''Consent management system not found - LGPD Art. 7 requires explicit consent'',
            ''Data minimization principles not implemented - LGPD Art. 6'',
            ''Data retention policies not defined - LGPD Art. 15'',
            ''Security measures not properly implemented - LGPD Art. 46''],
         recs =
           [''Implement consent collection, recording, and management system'',
            ''Implement data minimization and purpose limitation'',
            ''Define and implement data retention and deletion policies'',
            ''Implement appropriate technical and organizational security measures'']\<rparr>,
      bcb_regulations =
        \<lparr>score = 0,
         issues =
           [''PIX system not compliant with BCB Circular No 4.015'',
            ''Open Banking API not compliant with BCB Circular No 4.842'',
            ''Financial transaction logging not implemented''],
         recs =
           [''Implement PIX transaction limits, fraud detection, and logging'',
            ''Implement API security, documentation, and data sharing standards'',
            ''Implement 5-year transaction logging and audit trails'']\<rparr>,
      data_protection =
        \<lparr>score = 0,
         issues =
           [''Data encryption not properly implemented'',
            ''Access control system not implemented'',
            ''Audit logging system not implemented''],
         recs =
           [''Implement AES-256 encryption and TLS 1.3 for data in transit'',
            ''Implement role-based access control with audit logging'',
            ''Implement comprehensive audit logging for all data access'']\<rparr>,
      financial_security =
        \<lparr>score = 0,
         issues =
           [''Multi-factor authentication not implemented'',
            ''Fraud detection system not implemented'',
            ''Security monitoring not implemented''],
         recs =
           [''Implement MFA, biometric authentication, and device trust'',
            ''Implement real-time fraud detection and behavioral analysis'',
            ''Implement 24/7 security monitoring and incident response'']\<rparr>,
      overall_score = 0\<rparr>"

text \<open>
  Trees that hold no file at all: the directory \<open>docs/openbanking\<close> alone, the
  directory \<open>supabase/migrations\<close> alone; and a tree with one file that no tool reads.
\<close>

definition docs_only :: fs where
  "docs_only = Root [([''docs''], Dir), ([''docs'', ''openbanking''], Dir)]"

definition migrations_only :: fs where
  "migrations_only = Root [([''supabase''], Dir), ([''supabase'', ''migrations''], Dir)]"

definition readme_only :: fs where
  "readme_only = Root [([''README''], Text ''AegisWallet''), ([''src''], Dir)]"

text \<open>
  The deduction policy as the specification words it: 100 less the weights of the
  required rules, a rule being required when its failure is reported as an issue.
  The rules of \<open>audit_voice_performance\<close>, each with its weight and whether its failure
  appends to \<open>issues\<close>.
\<close>

definition required_rules_score :: "(int \<times> bool) list \<Rightarrow> int" where
  "required_rules_score rules = 100 - sum_list (map fst (filter snd rules))"

definition voice_performance_rules :: "(int \<times> bool) list" where
  "voice_performance_rules =
     [(15, True), (15, True), (15, True), (15, True), (20, True), (10, False)]"

section \<open>Properties\<close>

subsection \<open>The pass threshold\<close>

lemma compliance_score_single:
  "0 < s \<Longrightarrow> compliance_score (calculate_overall_score (with_lgpd_score s)) = s"
  by (simp add: calculate_overall_score_def with_lgpd_score_def init_results_def
      init_category_def Let_def)

text \<open>
  C4. Validity is decided by \<open>compliance_score \<ge> 70\<close>: on results that are still valid
  (as \<open>__init__\<close> leaves them), \<open>_calculate_overall_score\<close> keeps them valid exactly when
  the overall score it stores is at least 70, and the exit status is 0 then and 1
  otherwise; the performance audit exits with 0 exactly when its overall score is at
  least 70.
\<close>

theorem threshold_is_inclusive:
  "valid r \<Longrightarrow>
     (valid (calculate_overall_score r) \<longleftrightarrow> 70 \<le> compliance_score (calculate_overall_score r))
     \<and> exit_status (calculate_overall_score r) =
         (if 70 \<le> compliance_score (calculate_overall_score r) then 0 else 1)
     \<and> exit_status_p p = (if 70 \<le> overall_score_p p then 0 else 1)"
  by (simp add: calculate_overall_score_def exit_status_def exit_status_p_def Let_def)

theorem threshold_is_inclusive_witness:
  "valid (with_lgpd_score 69)
   \<and> compliance_score (calculate_overall_score (with_lgpd_score 69)) = 69
   \<and> \<not> valid (calculate_overall_score (with_lgpd_score 69))
   \<and> exit_status (calculate_overall_score (with_lgpd_score 69)) = 1
   \<and> valid (with_lgpd_score 70)
   \<and> compliance_score (calculate_overall_score (with_lgpd_score 70)) = 70
   \<and> valid (calculate_overall_score (with_lgpd_score 70))
   \<and> exit_status (calculate_overall_score (with_lgpd_score 70)) = 0
   \<and> exit_status_p (init_perf_results\<lparr>overall_score_p := 69\<rparr>) = 1
   \<and> exit_status_p (init_perf_results\<lparr>overall_score_p := 70\<rparr>) = 0"
proof -
  have v: "valid (with_lgpd_score 69)" "valid (with_lgpd_score 70)"
    by (simp_all add: with_lgpd_score_def init_results_def)
  have s: "compliance_score (calculate_overall_score (with_lgpd_score 69)) = 69"
    "compliance_score (calculate_overall_score (with_lgpd_score 70)) = 70"
    by (simp_all add: compliance_score_single)
  show ?thesis
    using threshold_is_inclusive [OF v(1), of "init_perf_results\<lparr>overall_score_p := 69\<rparr>"]
      threshold_is_inclusive [OF v(2), of "init_perf_results\<lparr>overall_score_p := 70\<rparr>"]
      v s
    by simp
qed

subsection \<open>The estimated response time\<close>





subsection \<open>Matching a literal\<close>

lemma match_here_lit: "match_here ic (lit w) (w @ rest)"
  by (induction w) (simp_all add: lit_def)

lemma match_here_anywhere: "match_here ic b s \<Longrightarrow> match_anywhere ic b s"
  by (cases s) simp_all

lemma match_anywhere_append: "match_anywhere ic b s \<Longrightarrow> match_anywhere ic b (pre @ s)"
  by (induction pre) simp_all

lemma match_anywhere_lit:
  assumes "sublist w s"
  shows "match_anywhere ic (lit w) s"
proof -
  from assms obtain ps ss where s: "s = ps @ w @ ss"
    by (auto simp: sublist_def)
  have "match_anywhere ic (lit w) (w @ ss)"
    by (intro match_here_anywhere match_here_lit)
  then show ?thesis
    unfolding s by (rule match_anywhere_append)
qed

lemma re_search_lit: "lit w \<in> set rx \<Longrightarrow> sublist w s \<Longrightarrow> re_search ic rx s"
  by (auto simp: re_search_def list_ex_iff intro: match_anywhere_lit)

subsection \<open>The range of the scores\<close>

lemma credit_fst: "fst (credit found w f st) = fst st + (if found then w else 0)"
  by (cases st) (simp add: credit_def)

lemma score_audit_category: "score (audit_category a) = max 0 (fst a)"
  by (cases a) (simp add: audit_category_def)

lemma fst_deduct: "fst (deduct w i r a) = fst a - w"
  by (cases a) (simp add: deduct_def)

lemma fst_audit_start: "fst audit_start = 100"
  by (simp add: audit_start_def)

lemma optimization_loop_le: "optimization_loop t ps a = Inr a' \<Longrightarrow> fst a' \<le> fst a"
proof (induction ps arbitrary: a)
  case Nil
  then show ?case by simp
next
  case (Cons p ps)
  obtain name rx where p: "p = (name, rx)" by (cases p)
  from Cons.prems show ?case
    by (auto simp: p bind_e_def fst_deduct split: sum.splits if_splits dest!: Cons.IH)
qed

lemma query_loop_le: "query_loop t ps a = Inr a' \<Longrightarrow> fst a' \<le> fst a"
proof (induction ps arbitrary: a)
  case Nil
  then show ?case by simp
next
  case (Cons p ps)
  obtain ptext rx where p: "p = (ptext, rx)" by (cases p)
  from Cons.prems show ?case
    by (auto simp: p bind_e_def fst_deduct split: sum.splits if_splits dest!: Cons.IH)
qed

lemma feature_loop_le: "fst (feature_loop content fs a) \<le> fst a"
proof (induction fs arbitrary: a)
  case Nil
  then show ?case by simp
next
  case (Cons f fs)
  obtain name rx where f: "f = (name, rx)" by (cases f)
  show ?case
    using Cons.IH[of "deduct 20
            [''Missing '' @ replace_underscores name @ '' in build configuration'']
            [''Enable '' @ replace_underscores name @ '' for smaller bundles''] a"]
      Cons.IH[of a]
    by (simp add: f fst_deduct)
qed

lemma vite_config_le: "vite_config t = Inr a \<Longrightarrow> fst a \<le> 100"
  using feature_loop_le[of _ optimization_features audit_start]
  by (auto simp: vite_config_def bind_e_def fst_deduct fst_audit_start
      split: option.splits sum.splits)

lemma database_indexes_le: "database_indexes t = Inr a \<Longrightarrow> fst a \<le> 100"
  by (auto simp: database_indexes_def bind_e_def fst_deduct fst_audit_start
      split: if_splits sum.splits)

lemma in_range: "c \<le> 100 \<Longrightarrow> 0 \<le> max 0 c \<and> max 0 (c::int) \<le> 100"
  by simp

lemma voice_performance_range:
  assumes "audit_voice_performance t r = Inr r'"
  shows "0 \<le> score (voice_performance r') \<and> score (voice_performance r') \<le> 100"
proof -
  from assms obtain a1 where a1: "optimization_loop t optimization_patterns audit_start = Inr a1"
    by (auto simp: audit_voice_performance_def bind_e_def split: sum.splits)
  from optimization_loop_le[OF a1] have "fst a1 \<le> 100"
    by (simp add: fst_audit_start)
  with assms a1 show ?thesis
    by (auto simp: audit_voice_performance_def bind_e_def Let_def score_audit_category
        fst_deduct split: sum.splits if_splits)
qed

lemma bundle_optimization_range:
  assumes "audit_bundle_optimization t r = Inr r'"
  shows "0 \<le> score (bundle_optimization r') \<and> score (bundle_optimization r') \<le> 100"
proof -
  from assms obtain a1 where a1: "vite_config t = Inr a1"
    by (auto simp: audit_bundle_optimization_def bind_e_def split: sum.splits)
  from vite_config_le[OF a1] assms a1 show ?thesis
    by (auto simp: audit_bundle_optimization_def bind_e_def Let_def score_audit_category
        fst_deduct split: sum.splits if_splits)
qed

lemma database_performance_range:
  assumes "audit_database_performance t r = Inr r'"
  shows "0 \<le> score (database_performance r') \<and> score (database_performance r') \<le> 100"
proof -
  from assms obtain a1 a2 where a1: "database_indexes t = Inr a1"
    and a2: "query_loop t query_patterns a1 = Inr a2"
    by (auto simp: audit_database_performance_def bind_e_def split: sum.splits)
  from database_indexes_le[OF a1] query_loop_le[OF a2] have "fst a2 \<le> 100"
    by simp
  with assms a1 a2 show ?thesis
    by (auto simp: audit_database_performance_def bind_e_def Let_def score_audit_category
        fst_deduct split: sum.splits if_splits)
qed

lemma realtime_performance_range:
  assumes "audit_realtime_performance t r = Inr r'"
  shows "0 \<le> score (realtime_performance r') \<and> score (realtime_performance r') \<le> 100"
  using assms
  by (auto simp: audit_realtime_performance_def bind_e_def Let_def score_audit_category
      fst_deduct fst_audit_start split: sum.splits if_splits)

lemma mobile_optimization_range:
  assumes "audit_mobile_optimization t r = Inr r'"
  shows "0 \<le> score (mobile_optimization r') \<and> score (mobile_optimization r') \<le> 100"
  using assms
  by (auto simp: audit_mobile_optimization_def bind_e_def Let_def score_audit_category
      fst_deduct fst_audit_start split: sum.splits if_splits)

lemma core_web_vitals_range:
  assumes "audit_core_web_vitals t r = Inr r'"
  shows "0 \<le> score (core_web_vitals r') \<and> score (core_web_vitals r') \<le> 100"
  using assms
  by (auto simp: audit_core_web_vitals_def bind_e_def Let_def score_audit_category
      fst_deduct fst_audit_start split: sum.splits if_splits)

lemma warn_below_70_categories:
  "lgpd (warn_below_70 l sc r) = lgpd r" "pix (warn_below_70 l sc r) = pix r"
  "openbanking (warn_below_70 l sc r) = openbanking r"
  "security (warn_below_70 l sc r) = security r"
  by (simp_all add: warn_below_70_def add_warning_def)

lemma openbanking_range:
  assumes "validate_openbanking_compliance t r = Inr r'"
  shows "0 \<le> score (openbanking r') \<and> score (openbanking r') \<le> 100"
proof -
  from assms obtain a b c d e where
    "score (openbanking r') =
       (if a then 25 else 0) + (if b then 20 else 0) + (if c then 20 else 0)
       + (if d then 25 else 0) + (if e then 10 else 0)"
    by (auto simp: validate_openbanking_compliance_def bind_e_def Let_def case_prod_beta
        credit_fst warn_below_70_categories split: sum.splits simp del: if_split cong: if_cong)
  then show ?thesis by (simp split: if_splits)
qed


lemma security_range:
  assumes "validate_brazilian_security t r = Inr r'"
  shows "0 \<le> score (security r') \<and> score (security r') \<le> 100"
proof -
  from assms obtain a b c d where
    "score (security r') =
       (if a then 25 else 0) + (if b then 25 else 0) + (if c then 25 else 0)
       + (if d then 25 else 0)"
    by (auto simp: validate_brazilian_security_def bind_e_def Let_def case_prod_beta
        credit_fst warn_below_70_categories split: sum.splits simp del: if_split cong: if_cong)
  then show ?thesis by (simp split: if_splits)
qed

lemma consent_migration_words:
  "str_in ''consentimento'' (lower consent_migration)"
  "str_in ''retention'' (lower consent_migration)"
  "str_in ''created_at'' (lower consent_migration)"
  "str_in ''updated_at'' (lower consent_migration)"
  by code_simp+

lemma consent_migration_body: "lgpd_migration_body consent_migration s = s + 25"
  by (simp add: lgpd_migration_body_def consent_migration_words Let_def)

lemma five_migrations_files:
  "migration_files five_migrations =
     [([''supabase'', ''migrations'', ''001.sql''], Text consent_migration),
      ([''supabase'', ''migrations'', ''002.sql''], Text consent_migration),
      ([''supabase'', ''migrations'', ''003.sql''], Text consent_migration),
      ([''supabase'', ''migrations'', ''004.sql''], Text consent_migration),
      ([''supabase'', ''migrations'', ''005.sql''], Text consent_migration)]"
  "glob five_migrations migrations_dir ''.sql'' = migration_files five_migrations"
  "exists_path five_migrations [''supabase'']"
  "exists_path five_migrations migrations_dir"
  "code_files five_migrations = []"
  "list_ex (exists_path five_migrations) privacy_policy_files = False"
  by code_simp+

lemma consent_migration_policy: "any_search True rls_patterns consent_migration"
proof -
  have "sublist ''CREATE POLICY'' consent_migration"
    by (simp add: consent_migration_def)
  then have "re_search True [lit ''CREATE POLICY''] consent_migration"
    by (simp add: re_search_lit)
  then show ?thesis
    by (simp add: any_search_def rls_patterns_def)
qed

lemma five_migrations_rls: "check_rls_implementation five_migrations = Inr True"
  by (simp add: check_rls_implementation_def five_migrations_files consent_migration_policy)

text \<open>
  C1. The scores of the accrual categories are not kept within 100. In
  \<open>validate_lgpd_compliance\<close> the additions for the migrations are made once for every
  migration file and nothing caps the sum (\<open>max_score = 100\<close> is assigned and never
  read): five migrations that each name the consent, retention and audit columns
  give 125, and 135 with the row-level security they declare. The deduction scores
  and the open banking and security scores do stay between 0 and 100, by the lemmas
  above.
\<close>

theorem lgpd_score_above_100:
  "map_sum id (\<lambda>r. score (lgpd r)) (validate_lgpd_compliance five_migrations init_results)
     = Inr 135"
  by (simp add: validate_lgpd_compliance_def five_migrations_files five_migrations_rls
      consent_migration_body bind_e_def credit_def Let_def lgpd_issue_def add_issue_def
      add_recommendation_def add_check_def warn_below_70_def init_results_def)

subsection \<open>Files that cannot be read\<close>

lemma guarded_loop_skips:
  "try_each_file body ((p, Undecodable) # fs) st = try_each_file body fs st"
  "try_each_file body ((p, Unreadable) # fs) st = try_each_file body fs st"
  "first_file hit ((p, Undecodable) # fs) = first_file hit fs"
  "first_file hit ((p, Unreadable) # fs) = first_file hit fs"
  by simp_all

text \<open>
  C6. A file that does not decode is skipped where the read stands under
  \<^verbatim>\<open>try\<close> (the lemma above), but the loop of \<open>validate_lgpd_compliance\<close> over the
  migrations opens each file outside any \<^verbatim>\<open>try\<close>: with one migration that is not
  UTF-8 the exception leaves the validation and \<open>main\<close>, and no report is printed.
  \<open>_check_rls_implementation\<close> reads the same file under \<^verbatim>\<open>try\<close> and skips it.
\<close>

theorem undecodable_migration_raises:
  "validate_lgpd_compliance undecodable_migration init_results = Inl UnicodeDecodeError
   \<and> main undecodable_migration [] = Inl UnicodeDecodeError
   \<and> check_rls_implementation undecodable_migration = Inr False"
  by code_simp

subsection \<open>The empty corpus and the missing root\<close>

lemma str_int_0: "str_int 0 = ''0''"
  by code_simp

lemma rglob_Nil_iff:
  "rglob t suf = [] \<longleftrightarrow> (\<forall>(p, n) \<in> set (entries t). p \<noteq> [] \<longrightarrow> \<not> suffix suf (last p))"
  by (auto simp: rglob_def filter_empty_conv)

lemma glob_Nil: "rglob t suf = [] \<Longrightarrow> glob t d suf = []"
  by (auto simp: rglob_def glob_def filter_empty_conv)

lemma not_exists_path:
  "rglob t suf = [] \<Longrightarrow> p \<noteq> [] \<Longrightarrow> suffix suf (last p) \<Longrightarrow> \<not> exists_path t p"
  by (auto simp: rglob_Nil_iff exists_path_def)

lemma map_of_None:
  "rglob t suf = [] \<Longrightarrow> p \<noteq> [] \<Longrightarrow> suffix suf (last p) \<Longrightarrow> map_of (entries t) p = None"
  using not_exists_path [of t suf p] by (simp add: exists_path_def map_of_eq_None_iff)

lemma empty_corpus_rglob:
  assumes "empty_corpus t"
  shows "rglob t ''.ts'' = []" "rglob t ''.tsx'' = []" "rglob t ''.js'' = []"
    "rglob t ''.jsx'' = []" "rglob t ''.md'' = []" "rglob t ''.json'' = []"
    "rglob t ''.css'' = []" "rglob t ''.html'' = []" "rglob t ''.sql'' = []"
    "rglob t ''.py'' = []" "rglob t ''.java'' = []" "rglob t ''.go'' = []"
    "rglob t ''.rs'' = []" "rglob t ''.php'' = []" "rglob t ''.yaml'' = []"
    "rglob t ''.yml'' = []"
  using assms by (simp_all add: empty_corpus_def scan_suffixes_def)

lemma md_names:
  "list_all (\<lambda>p. p \<noteq> [] \<and> suffix ''.md'' (last p)) privacy_policy_files"
  "list_all (\<lambda>p. p \<noteq> [] \<and> suffix ''.md'' (last p))
     [[''openbanking.md''], [''open_banking.md''], [''openbanking_spec.md'']]"
  "suffix ''.ts'' (last [''vite.config.ts''])"
  by code_simp+

lemma empty_corpus_docs:
  assumes "empty_corpus t"
  shows "list_ex (exists_path t) privacy_policy_files = False"
    and "list_ex (exists_path t) ob_docs = False"
    and "map_of (entries t) [''vite.config.ts''] = None"
proof -
  have md: "rglob t ''.md'' = []" and ts: "rglob t ''.ts'' = []"
    using assms by (simp_all add: empty_corpus_rglob)
  show "list_ex (exists_path t) privacy_policy_files = False"
    using md_names(1) not_exists_path [OF md]
    by (auto simp: list_ex_iff list_all_iff)
  have "\<not> exists_path t [''docs'', ''openbanking'']"
    using assms by (simp add: empty_corpus_def)
  moreover have "\<forall>p \<in> set [[''openbanking.md''], [''open_banking.md''], [''openbanking_spec.md'']].
      \<not> exists_path t p"
    using md_names(2) not_exists_path [OF md] by (auto simp: list_all_iff)
  ultimately show "list_ex (exists_path t) ob_docs = False"
    by (simp add: ob_docs_def)
  show "map_of (entries t) [''vite.config.ts''] = None"
    using map_of_None [OF ts _ md_names(3)] by simp
qed

lemma empty_corpus_files:
  assumes "empty_corpus t"
  shows "code_files t = []" "migration_files t = []"
    "check_rls_implementation t = Inr False"
    "search_in_code t rx = Inr False"
    "collect_source_files t = []"
    "exists_path t migrations_dir = False"
  using assms
  by (simp_all add: code_files_def migration_files_def check_rls_implementation_def
      search_in_code_def collect_source_files_def source_patterns_def
      empty_corpus_rglob glob_Nil empty_corpus_def)

lemma empty_corpus_search_any: "empty_corpus t \<Longrightarrow> search_any_in_code t ps = Inr False"
  by (induction ps) (simp_all add: empty_corpus_files bind_e_def)

lemma empty_corpus_Root: "empty_corpus (Root [])"
  by (simp add: empty_corpus_def rglob_def exists_path_def scan_suffixes_def migrations_dir_def)

lemma empty_corpus_NoRoot: "empty_corpus NoRoot"
  by (simp add: empty_corpus_def rglob_def exists_path_def scan_suffixes_def migrations_dir_def)

lemma empty_lgpd:
  "empty_corpus t \<Longrightarrow> validate_lgpd_compliance t r = validate_lgpd_compliance (Root []) r"
  by (simp add: validate_lgpd_compliance_def empty_corpus_files empty_corpus_docs
      empty_corpus_Root)

lemma empty_pix:
  "empty_corpus t \<Longrightarrow> validate_pix_compliance t r = validate_pix_compliance (Root []) r"
  by (simp add: validate_pix_compliance_def empty_corpus_files empty_corpus_search_any
      empty_corpus_Root)

lemma empty_openbanking:
  "empty_corpus t \<Longrightarrow>
   validate_openbanking_compliance t r = validate_openbanking_compliance (Root []) r"
  by (simp add: validate_openbanking_compliance_def empty_corpus_files empty_corpus_docs
      empty_corpus_Root)

lemma empty_security:
  "empty_corpus t \<Longrightarrow> validate_brazilian_security t r = validate_brazilian_security (Root []) r"
  by (simp add: validate_brazilian_security_def empty_corpus_files empty_corpus_Root)

lemma empty_run_checks:
  "empty_corpus t \<Longrightarrow> run_checks t checks r = run_checks (Root []) checks r"
  by (induction checks arbitrary: r)
    (simp_all add: run_check_def empty_lgpd empty_pix empty_openbanking empty_security
      bind_e_def split: sum.splits)

lemma empty_validate_all:
  "empty_corpus t \<Longrightarrow> validate_all t checks r = validate_all (Root []) checks r"
  by (simp add: validate_all_def empty_run_checks)

lemma empty_concat:
  assumes "list_all (\<lambda>ext. rglob t (''.'' @ ext) = []) exts"
  shows "concat (map (\<lambda>ext. rglob t (''.'' @ ext)) exts) = []"
  using assms unfolding concat_eq_Nil_conv list_all_iff by auto

lemma empty_search_in_files:
  assumes "list_all (\<lambda>ext. rglob t (''.'' @ ext) = []) exts"
  shows "search_in_files t rx exts = Inr []"
  unfolding search_in_files_def empty_concat [OF assms] by simp

lemma empty_any_search_in_files:
  assumes "list_all (\<lambda>ext. rglob t (''.'' @ ext) = []) exts"
  shows "any_search_in_files t ps exts = Inr False"
  by (induction ps) (simp_all add: empty_search_in_files [OF assms] bind_e_def)

lemma empty_corpus_exts:
  assumes "empty_corpus t"
  shows "list_all (\<lambda>ext. rglob t (''.'' @ ext) = []) ts_tsx"
    "list_all (\<lambda>ext. rglob t (''.'' @ ext) = []) [''ts'', ''tsx'', ''js'']"
    "list_all (\<lambda>ext. rglob t (''.'' @ ext) = []) [''ts'', ''tsx'', ''md'']"
    "list_all (\<lambda>ext. rglob t (''.'' @ ext) = []) [''json'', ''js'']"
    "list_all (\<lambda>ext. rglob t (''.'' @ ext) = []) [''ts'', ''tsx'', ''css'']"
    "list_all (\<lambda>ext. rglob t (''.'' @ ext) = []) [''tsx'', ''html'', ''css'']"
    "list_all (\<lambda>ext. rglob t (''.'' @ ext) = []) [''ts'', ''tsx'', ''jsx'']"
  by (simp_all add: ts_tsx_def empty_corpus_rglob [OF assms])

lemma empty_corpus_searches:
  assumes "empty_corpus t"
  shows "search_in_files t rx ts_tsx = Inr []"
    "search_in_files t rx [''ts'', ''tsx'', ''js''] = Inr []"
    "search_in_files t rx [''ts'', ''tsx'', ''md''] = Inr []"
    "search_in_files t rx [''json'', ''js''] = Inr []"
    "any_search_in_files t ps ts_tsx = Inr False"
    "any_search_in_files t ps [''ts'', ''tsx'', ''js''] = Inr False"
    "any_search_in_files t ps [''ts'', ''tsx'', ''css''] = Inr False"
    "any_search_in_files t ps [''tsx'', ''html'', ''css''] = Inr False"
    "any_search_in_files t ps [''ts'', ''tsx'', ''jsx''] = Inr False"
  by (simp_all only: empty_search_in_files empty_any_search_in_files
      empty_corpus_exts [OF assms])

lemma empty_optimization_loop:
  assumes "empty_corpus t"
  shows "optimization_loop t ps a = optimization_loop (Root []) ps a"
proof (induction ps arbitrary: a)
  case Nil
  show ?case by simp
next
  case (Cons p ps)
  show ?case
    by (cases p)
      (simp add: Cons.IH empty_corpus_searches [OF assms]
        empty_corpus_searches [OF empty_corpus_Root] bind_e_def)
qed

lemma empty_query_loop:
  assumes "empty_corpus t"
  shows "query_loop t ps a = query_loop (Root []) ps a"
proof (induction ps arbitrary: a)
  case Nil
  show ?case by simp
next
  case (Cons p ps)
  show ?case
    by (cases p)
      (simp add: Cons.IH empty_corpus_searches [OF assms]
        empty_corpus_searches [OF empty_corpus_Root] bind_e_def)
qed

lemma empty_voice:
  assumes "empty_corpus t"
  shows "audit_voice_performance t r = audit_voice_performance (Root []) r"
  by (simp add: audit_voice_performance_def empty_optimization_loop [OF assms]
      empty_corpus_searches [OF assms] empty_corpus_searches [OF empty_corpus_Root])

lemma empty_bundle:
  assumes "empty_corpus t"
  shows "audit_bundle_optimization t r = audit_bundle_optimization (Root []) r"
  by (simp add: audit_bundle_optimization_def vite_config_def
      empty_corpus_docs [OF assms] empty_corpus_docs [OF empty_corpus_Root]
      empty_corpus_searches [OF assms] empty_corpus_searches [OF empty_corpus_Root])

lemma empty_database:
  assumes "empty_corpus t"
  shows "audit_database_performance t r = audit_database_performance (Root []) r"
  by (simp add: audit_database_performance_def database_indexes_def
      empty_query_loop [OF assms]
      empty_corpus_files [OF assms] empty_corpus_files [OF empty_corpus_Root]
      empty_corpus_searches [OF assms] empty_corpus_searches [OF empty_corpus_Root])

lemma empty_realtime:
  assumes "empty_corpus t"
  shows "audit_realtime_performance t r = audit_realtime_performance (Root []) r"
  by (simp add: audit_realtime_performance_def
      empty_corpus_searches [OF assms] empty_corpus_searches [OF empty_corpus_Root])

lemma empty_mobile:
  assumes "empty_corpus t"
  shows "audit_mobile_optimization t r = audit_mobile_optimization (Root []) r"
  by (simp add: audit_mobile_optimization_def
      empty_corpus_searches [OF assms] empty_corpus_searches [OF empty_corpus_Root])

lemma empty_vitals:
  assumes "empty_corpus t"
  shows "audit_core_web_vitals t r = audit_core_web_vitals (Root []) r"
  by (simp add: audit_core_web_vitals_def
      empty_corpus_searches [OF assms] empty_corpus_searches [OF empty_corpus_Root])

lemma empty_audit_all:
  assumes "empty_corpus t"
  shows "audit_all t r = audit_all (Root []) r"
  unfolding audit_all_def
  by (simp only: empty_voice [OF assms] empty_bundle [OF assms] empty_database [OF assms]
      empty_realtime [OF assms] empty_mobile [OF assms] empty_vitals [OF assms])

lemma empty_report_Root: "validate_all (Root []) [] init_results = Inr empty_report"
  by code_simp

lemmas empty_Root =
  empty_corpus_searches [OF empty_corpus_Root] empty_corpus_files [OF empty_corpus_Root]
  empty_corpus_docs [OF empty_corpus_Root]

lemma empty_audit_voice:
  "audit_voice_performance (Root []) r =
     Inr ((add_check_p ''voice_performance'' r)
            \<lparr>voice_performance := voice_performance empty_audit\<rparr>)"
  by (simp add: audit_voice_performance_def optimization_patterns_def empty_Root bind_e_def
      audit_category_def deduct_def audit_start_def empty_audit_def replace_underscores_def)

lemma empty_audit_bundle:
  "audit_bundle_optimization (Root []) r =
     Inr ((add_check_p ''bundle_optimization'' r)
            \<lparr>bundle_optimization := bundle_optimization empty_audit\<rparr>)"
  by (simp add: audit_bundle_optimization_def vite_config_def empty_Root bind_e_def
      audit_category_def deduct_def audit_start_def empty_audit_def)

lemma empty_audit_database:
  "audit_database_performance (Root []) r =
     Inr ((add_check_p ''database_performance'' r)
            \<lparr>database_performance := database_performance empty_audit\<rparr>)"
  by (simp add: audit_database_performance_def database_indexes_def query_patterns_def
      empty_Root bind_e_def audit_category_def deduct_def audit_start_def empty_audit_def)

lemma empty_audit_realtime:
  "audit_realtime_performance (Root []) r =
     Inr ((add_check_p ''realtime_performance'' r)
            \<lparr>realtime_performance := realtime_performance empty_audit\<rparr>)"
  by (simp add: audit_realtime_performance_def empty_Root bind_e_def
      audit_category_def deduct_def audit_start_def empty_audit_def)

lemma empty_audit_mobile:
  "audit_mobile_optimization (Root []) r =
     Inr ((add_check_p ''mobile_optimization'' r)
            \<lparr>mobile_optimization := mobile_optimization empty_audit\<rparr>)"
  by (simp add: audit_mobile_optimization_def empty_Root bind_e_def
      audit_category_def deduct_def audit_start_def empty_audit_def)

lemma empty_audit_vitals:
  "audit_core_web_vitals (Root []) r =
     Inr ((add_check_p ''core_web_vitals'' r)
            \<lparr>core_web_vitals := core_web_vitals empty_audit\<rparr>)"
  by (simp add: audit_core_web_vitals_def empty_Root bind_e_def
      audit_category_def deduct_def audit_start_def empty_audit_def)

lemma floor_775_3: "\<lfloor>(775::rat) / 3\<rfloor> = 258"
  by (simp add: floor_eq_iff)

lemma empty_audit_Root: "audit_all (Root []) init_perf_results = Inr empty_audit"
  by (simp add: audit_all_def empty_audit_voice empty_audit_bundle empty_audit_database
      empty_audit_realtime empty_audit_mobile empty_audit_vitals bind_e_def
      calculate_overall_score_p_def add_check_p_def init_perf_results_def empty_audit_def
      round1_def Let_def floor_775_3)

lemma empty_validation_Nil: "validate_files [] init_validation_results = empty_validation"
  by code_simp

text \<open>
  C3, as stated, fails. With no file at all under the root, the directory
  \<open>docs/openbanking\<close> gives the open banking category 10, not 0; the database
  category scores 45 when the directory \<open>supabase/migrations\<close> is there and 75 when
  it is not, so no sum of rule weights gives its score on every empty corpus; and the
  voice category scores 10 on the empty directory, where 100 less the weights of its
  required rules is 20: a rule that only recommends is deducted as well.
\<close>

theorem empty_corpus_scores_counterexample:
  "list_all (\<lambda>suf. rglob docs_only suf = []) scan_suffixes
   \<and> map_sum id (\<lambda>r. score (openbanking r))
         (validate_openbanking_compliance docs_only init_results) = Inr 10
   \<and> list_all (\<lambda>suf. rglob migrations_only suf = []) scan_suffixes
   \<and> map_sum id (\<lambda>r. score (database_performance r))
         (audit_database_performance migrations_only init_perf_results) = Inr 45
   \<and> map_sum id (\<lambda>r. score (database_performance r))
         (audit_database_performance (Root []) init_perf_results) = Inr 75
   \<and> map_sum id (\<lambda>r. score (voice_performance r))
         (audit_voice_performance (Root []) init_perf_results) = Inr 10
   \<and> required_rules_score voice_performance_rules = 20"
  by code_simp

text \<open>
  C3, amended. On an empty corpus (no entry with a scanned extension, and neither
  \<open>docs/openbanking\<close> nor \<open>supabase/migrations\<close>) every check is unsatisfied and
  reports so, every accrual category scores 0, and the deduction categories score
  100 less the weights of all their rules that deduct for a missing pattern, required
  or not: voice 10, bundle 10, database 75, real-time 35, mobile 25, core web vitals 0.
\<close>

theorem empty_corpus_results:
  assumes "empty_corpus t"
  shows "validate_all t [] init_results = Inr empty_report
    \<and> audit_all t init_perf_results = Inr empty_audit
    \<and> validate_files (collect_source_files t) init_validation_results = empty_validation
    \<and> map score [lgpd empty_report, pix empty_report, openbanking empty_report,
         security empty_report] = [0, 0, 0, 0]
    \<and> map score [voice_performance empty_audit, bundle_optimization empty_audit,
         database_performance empty_audit, realtime_performance empty_audit,
         mobile_optimization empty_audit, core_web_vitals empty_audit]
       = [10, 10, 75, 35, 25, 0]
    \<and> map score [lgpd_compliance empty_validation, bcb_regulations empty_validation,
         data_protection empty_validation, financial_security empty_validation]
       = [0, 0, 0, 0]"
  by (simp add: empty_validate_all [OF assms] empty_report_Root empty_audit_all [OF assms]
      empty_audit_Root empty_corpus_files [OF assms] empty_validation_Nil
      empty_report_def empty_audit_def empty_validation_def)

lemma empty_corpus_readme_only: "empty_corpus readme_only"
  by code_simp

theorem empty_corpus_results_witness:
  "empty_corpus readme_only
   \<and> validate_all readme_only [] init_results = Inr empty_report
   \<and> audit_all readme_only init_perf_results = Inr empty_audit
   \<and> validate_files (collect_source_files readme_only) init_validation_results
       = empty_validation"
  using empty_corpus_results [OF empty_corpus_readme_only] empty_corpus_readme_only
  by simp

text \<open>
  C7, as stated, fails for the aegis-architect tools: on a root that does not exist
  the compliance validator and the performance audit run every check and report.
\<close>

theorem missing_root_counterexample:
  "map_sum id (\<lambda>(r, c). (checks_performed r, c)) (main NoRoot [])
     = Inr ([''lgpd'', ''pix'', ''openbanking'', ''security''], 1)
   \<and> map_sum id (\<lambda>(r, c). (checks_performed_p r, c)) (main_p NoRoot)
     = Inr ([''voice_performance'', ''bundle_optimization'', ''database_performance'',
             ''realtime_performance'', ''mobile_optimization'', ''core_web_vitals''], 1)"
proof -
  have "main NoRoot [] = Inr (empty_report, 1)"
    by (simp add: main_def empty_validate_all [OF empty_corpus_NoRoot] empty_report_Root
        bind_e_def exit_status_def empty_report_def)
  moreover have "main_p NoRoot = Inr (empty_audit, 1)"
    by (simp add: main_p_def empty_audit_all [OF empty_corpus_NoRoot] empty_audit_Root
        bind_e_def exit_status_p_def empty_audit_def)
  ultimately show ?thesis
    by (simp add: empty_report_def empty_audit_def)
qed

text \<open>
  C7, amended. On a root that does not exist the fintech validator prints the one
  line \<open>Error: Project path not found: ...\<close> and exits with 1 without a scan. The
  compliance validator and the performance audit of aegis-architect do not look
  whether the root exists: they scan it as the empty directory, report the scores
  of the empty corpus and exit with 1.
\<close>

theorem missing_root:
  "main_f [project_path] NoRoot =
     \<lparr>exit_code = 1, printed = [''Error: Project path not found: '' @ project_path],
      scanned = None\<rparr>
   \<and> main NoRoot checks = main (Root []) checks
   \<and> main_p NoRoot = main_p (Root [])
   \<and> main NoRoot [] = Inr (empty_report, 1)
   \<and> main_p NoRoot = Inr (empty_audit, 1)"
proof -
  have "main_f [project_path] NoRoot =
     \<lparr>exit_code = 1, printed = [''Error: Project path not found: '' @ project_path],
      scanned = None\<rparr>"
    by (simp add: main_f_def validate_project_def)
  moreover have "main NoRoot checks = main (Root []) checks"
    by (simp add: main_def empty_validate_all [OF empty_corpus_NoRoot])
  moreover have "main_p NoRoot = main_p (Root [])"
    by (simp add: main_p_def empty_audit_all [OF empty_corpus_NoRoot])
  moreover have "main NoRoot [] = Inr (empty_report, 1)"
    by (simp add: main_def empty_validate_all [OF empty_corpus_NoRoot] empty_report_Root
        bind_e_def exit_status_def empty_report_def)
  moreover have "main_p NoRoot = Inr (empty_audit, 1)"
    by (simp add: main_p_def empty_audit_all [OF empty_corpus_NoRoot] empty_audit_Root
        bind_e_def exit_status_p_def empty_audit_def)
  ultimately show ?thesis by simp
qed

end
